theory Spec2Isabelle
  imports
    Complex_Main
    "HOL-Library.AList"
    "HOL-Library.Multiset"
    "HOL-Library.Char_ord"
    "HOL-Library.List_Lexorder"
begin

section \<open>Numbers, time and strings\<close>

text \<open>
  Python \<^verbatim>\<open>float\<close> values are modelled as real numbers, and, except where it is said
  otherwise, arithmetic on them is exact; there is no NaN or infinity. Python \<^verbatim>\<open>int\<close>
  values are \<^typ>\<open>int\<close>. A \<^verbatim>\<open>datetime\<close> is the number of microseconds since the epoch.
\<close>

type_synonym datetime = int

definition timedelta_days :: "int \<Rightarrow> int" where
  "timedelta_days d = d * 86400000000"

text \<open>
  Python's \<^verbatim>\<open>round(x, n)\<close> rounds to the nearest multiple of \<open>10^-n\<close> and
  resolves a tie towards the even neighbour.
\<close>

definition round_half_even :: "real \<Rightarrow> int" where
  "round_half_even x =
     (let f = \<lfloor>x\<rfloor>; d = x - of_int f
      in if d < 1 / 2 then f else if 1 / 2 < d then f + 1 else if even f then f else f + 1)"

definition py_round :: "real \<Rightarrow> nat \<Rightarrow> real" where
  "py_round x n = of_int (round_half_even (x * 10 ^ n)) / 10 ^ n"

text \<open>
  One function, \<^verbatim>\<open>_pick_target_type_for_combined_load\<close>, compares a quotient of floats
  with whole numbers of cores, and the outcome depends on how the quotient is rounded. Its
  arithmetic is therefore modelled in IEEE 754 double precision: the result of an operation
  is the exact result rounded to the nearest double, a tie going to the double with the even
  significand. A double other than zero is \<open>m * 2 ^ (e - 52)\<close> with a whole number \<open>m\<close> of
  53 bits, \<open>2 ^ 52 \<le> \<bar>m\<bar> < 2 ^ 53\<close>, and an exponent \<open>e\<close> from \<open>-1022\<close> on; below that
  range the spacing stays \<open>2 ^ -1074\<close>. Overflow to infinity is not modelled.

  \<open>float_exponent x\<close> is the exponent \<open>e\<close> with \<open>2 ^ e \<le> \<bar>x\<bar> < 2 ^ (e + 1)\<close>, found by
  halving or doubling; \<open>float_of x\<close> is the double nearest to \<open>x\<close>.
\<close>

function exp_up :: "real \<Rightarrow> int" where
  "exp_up x = (if x < 2 then 0 else exp_up (x / 2) + 1)"
  by pat_completeness auto
termination
proof (relation "measure (\<lambda>x. nat \<lfloor>x\<rfloor>)")
  show "wf (measure (\<lambda>x. nat \<lfloor>x\<rfloor>))" by simp
next
  fix x :: real
  assume "\<not> x < 2"
  then have "of_int \<lfloor>x / 2\<rfloor> \<le> x / 2" "x / 2 \<le> x - 1" "x - 1 < of_int \<lfloor>x\<rfloor>" "2 \<le> x"
    by linarith+
  then have "(of_int \<lfloor>x / 2\<rfloor> :: real) < of_int \<lfloor>x\<rfloor>" "(0::real) < of_int \<lfloor>x\<rfloor>" by linarith+
  then have "\<lfloor>x / 2\<rfloor> < \<lfloor>x\<rfloor>" "0 < \<lfloor>x\<rfloor>" by linarith+
  then show "(x / 2, x) \<in> measure (\<lambda>x. nat \<lfloor>x\<rfloor>)" by simp
qed

function exp_down :: "real \<Rightarrow> int" where
  "exp_down x = (if 1 \<le> x \<or> x \<le> 0 then 0 else exp_down (x * 2) - 1)"
  by pat_completeness auto
termination
proof (relation "measure (\<lambda>x. nat \<lceil>1 / x\<rceil>)")
  show "wf (measure (\<lambda>x. nat \<lceil>1 / x\<rceil>))" by simp
next
  fix x :: real
  assume "\<not> (1 \<le> x \<or> x \<le> 0)"
  then have x: "0 < x" "x < 1" by simp_all
  define y where "y = 1 / x"
  from x have y: "1 < y" by (simp add: y_def)
  then have c: "2 \<le> \<lceil>y\<rceil>" by linarith
  have "y / 2 \<le> of_int \<lceil>y\<rceil> / 2" by (simp add: divide_right_mono)
  also from c have "(of_int \<lceil>y\<rceil> :: real) / 2 \<le> of_int (\<lceil>y\<rceil> - 1)" by simp
  finally have "\<lceil>y / 2\<rceil> \<le> \<lceil>y\<rceil> - 1" by (simp only: ceiling_le_iff)
  then have l: "\<lceil>y / 2\<rceil> < \<lceil>y\<rceil>" by linarith
  from c have p: "0 < \<lceil>y\<rceil>" by linarith
  have e1: "1 / (x * 2) = y / 2" and e2: "1 / x = y" by (simp_all add: y_def)
  from l p have "nat \<lceil>1 / (x * 2)\<rceil> < nat \<lceil>1 / x\<rceil>"
    unfolding e1 e2 by (simp only: zless_nat_conj)
  then show "(x * 2, x) \<in> measure (\<lambda>x. nat \<lceil>1 / x\<rceil>)" by (simp only: in_measure)
qed

declare exp_up.simps [simp del] exp_down.simps [simp del]

definition float_exponent :: "real \<Rightarrow> int" where
  "float_exponent x = (if 1 \<le> \<bar>x\<bar> then exp_up \<bar>x\<bar> else exp_down \<bar>x\<bar>)"

definition two_power :: "int \<Rightarrow> real" where
  "two_power k = (if 0 \<le> k then 2 ^ nat k else 1 / 2 ^ nat (- k))"

definition float_of :: "real \<Rightarrow> real" where
  "float_of x =
     (let ulp = two_power (max (float_exponent x) (- 1022) - 52)
      in of_int (round_half_even (x / ulp)) * ulp)"

text \<open>The product and the quotient of two floats.\<close>

definition float_mul :: "real \<Rightarrow> real \<Rightarrow> real" where
  "float_mul x y = float_of (x * y)"

definition float_div :: "real \<Rightarrow> real \<Rightarrow> real" where
  "float_div x y = float_of (x / y)"

text \<open>
  Strings are byte strings. \<^verbatim>\<open>str.lower\<close> and the case-insensitive regular
  expression search are modelled on ASCII letters.
\<close>

definition lower_char :: "char \<Rightarrow> char" where
  "lower_char c =
     (case map_of (zip ''ABCDEFGHIJKLMNOPQRSTUVWXYZ'' ''abcdefghijklmnopqrstuvwxyz'') c of
        Some l \<Rightarrow> l
      | None \<Rightarrow> c)"

definition lower :: "string \<Rightarrow> string" where
  "lower s = map lower_char s"

fun contains :: "string \<Rightarrow> string \<Rightarrow> bool" where
  "contains sub [] = (sub = [])"
| "contains sub (c # cs) = (take (length sub) (c # cs) = sub \<or> contains sub cs)"

text \<open>
  A format field \<^verbatim>\<open>{x:.nf}\<close> of an f-string: the sign, the integer part in decimal,
  and \<open>n\<close> decimals, of \<open>x\<close> rounded to \<open>n\<close> decimals. A negative value that rounds to
  zero keeps its sign, as in Python.
\<close>

definition digit_char :: "nat \<Rightarrow> char" where
  "digit_char d = ''0123456789'' ! d"

fun str_nat :: "nat \<Rightarrow> string" where
  "str_nat n = (if n < 10 then [digit_char n] else str_nat (n div 10) @ [digit_char (n mod 10)])"

declare str_nat.simps [simp del]

definition zfill :: "nat \<Rightarrow> string \<Rightarrow> string" where
  "zfill w s = replicate (w - length s) CHR ''0'' @ s"

definition format_fixed :: "nat \<Rightarrow> real \<Rightarrow> string" where
  "format_fixed n x =
     (let k = nat (round_half_even (\<bar>x\<bar> * 10 ^ n))
      in (if x < 0 then ''-'' else []) @ str_nat (k div 10 ^ n) @
         (if n = 0 then [] else ''.'' @ zfill n (str_nat (k mod 10 ^ n))))"

text \<open>\<^verbatim>\<open>sep.join(xs)\<close>\<close>

fun join :: "string \<Rightarrow> string list \<Rightarrow> string" where
  "join sep [] = []"
| "join sep [x] = x"
| "join sep (x # y # ys) = x @ sep @ join sep (y # ys)"

text \<open>
  A Python \<^verbatim>\<open>dict\<close> is an association list in insertion order with distinct keys:
  storing under a key that is present replaces the value in place, storing under a new key
  appends. A dict comprehension stores its items from left to right.
\<close>

type_synonym ('k, 'v) dict = "('k \<times> 'v) list"

definition dict_of :: "('k \<times> 'v) list \<Rightarrow> ('k, 'v) dict" where
  "dict_of kvs = foldl (\<lambda>d (k, v). AList.update k v d) [] kvs"

definition dict_get :: "('k, 'v) dict \<Rightarrow> 'k \<Rightarrow> 'v \<Rightarrow> 'v" where
  "dict_get d k dflt = (case map_of d k of Some v \<Rightarrow> v | None \<Rightarrow> dflt)"

section \<open>Data model (models.py, schemas.py, config.py)\<close>

text \<open>
  One record per mapped class, with the columns of the class. Where two classes have a
  column of the same name, the column of the later class carries a prefix
  (\<open>snap_\<close>, \<open>svc_\<close>, \<open>rec_\<close>, \<open>rep_\<close>); the primary key of a server is \<open>srv_id\<close>.
  The surrogate primary keys of snapshot, service and recommendation rows are assigned by the
  database and are not read by any function modelled here, so these rows are modelled
  without them; a table is the list of its rows in insertion order.
\<close>

datatype ServerSource = cloud | dedicated

datatype ServiceType = docker | systemd | port

datatype Confidence = high | medium | low

datatype RecommendationStatus = pending | accepted | dismissed

record Server =
  srv_id :: int
  hetzner_id :: string
  name :: string
  server_type :: string
  source :: ServerSource
  status :: string
  datacenter :: string
  ipv4 :: string
  cores :: int
  memory_gb :: real
  disk_gb :: int
  monthly_cost_eur :: real
  labels :: "(string, string) dict option"
  project_name :: "string option"
  created_at :: datetime
  last_seen_at :: datetime
  updated_at :: datetime

record MetricSnapshot =
  snap_server_id :: int
  timestamp :: datetime
  cpu_percent :: real
  memory_percent :: real
  disk_percent :: real
  network_in_mbps :: real
  network_out_mbps :: real
  load_avg_1m :: "real option"

record RunningService =
  svc_server_id :: int
  service_type :: ServiceType
  svc_name :: string
  svc_port :: "int option"
  svc_status :: string
  svc_cpu_percent :: "real option"
  svc_memory_mb :: "real option"
  discovered_at :: datetime
  svc_last_seen_at :: datetime

record ConsolidationRecommendation =
  group_name :: string
  server_ids :: "int list"
  target_server_type :: string
  current_total_cost_eur :: real
  projected_cost_eur :: real
  monthly_savings_eur :: real
  rationale :: string
  confidence :: Confidence
  rec_status :: RecommendationStatus
  rec_created_at :: datetime

text \<open>The database: one list of rows per table.\<close>

record db =
  servers :: "Server list"
  metric_snapshots :: "MetricSnapshot list"
  running_services :: "RunningService list"
  consolidation_recommendations :: "ConsolidationRecommendation list"

text \<open>\<^verbatim>\<open>schemas.AgentServiceReport\<close> and \<^verbatim>\<open>schemas.AgentReport\<close>\<close>

record AgentServiceReport =
  rep_name :: string
  rep_service_type :: string
  rep_port :: "int option"
  rep_status :: string
  rep_svc_cpu_percent :: "real option"
  rep_memory_mb :: "real option"

record AgentReport =
  hostname :: string
  server_ip :: string
  rep_cpu_percent :: real
  rep_memory_percent :: real
  rep_disk_percent :: real
  rep_network_in_mbps :: real
  rep_network_out_mbps :: real
  rep_load_avg_1m :: "real option"
  services :: "AgentServiceReport list"
  secret :: string

text \<open>\<^verbatim>\<open>config.Settings\<close>: the settings that the modelled functions read.\<close>

record Settings =
  hetzner_cloud_api_token :: string
  hetzner_robot_user :: string
  hetzner_robot_password :: string
  agent_secret :: string

text \<open>The exceptions that the modelled functions raise.\<close>

datatype error =
    HTTPException int string
  | HetznerCloudError int string
  | HetznerRobotError int string
  | ValueError
  | JSONDecodeError
  | MultipleResultsFound
  | IntegrityError

section \<open>Utilization tiers (analyzer.py, routes/servers.py)\<close>

text \<open>\<^verbatim>\<open>analyzer.classify_utilization\<close>\<close>

definition classify_utilization :: "real \<Rightarrow> string" where
  "classify_utilization avg_cpu_30d =
     (if avg_cpu_30d < 5 then ''idle''
      else if avg_cpu_30d < 20 then ''low''
      else if avg_cpu_30d < 60 then ''moderate''
      else if avg_cpu_30d < 85 then ''high''
      else ''critical'')"

text \<open>\<^verbatim>\<open>routes.servers._classify_utilization\<close>, a second copy of the same ladder.\<close>

definition routes_classify_utilization :: "real \<Rightarrow> string" where
  "routes_classify_utilization avg_cpu_30d =
     (if avg_cpu_30d < 5 then ''idle''
      else if avg_cpu_30d < 20 then ''low''
      else if avg_cpu_30d < 60 then ''moderate''
      else if avg_cpu_30d < 85 then ''high''
      else ''critical'')"

text \<open>
  The ladder of \<^verbatim>\<open>models.UtilizationTier\<close>, in declaration order; the rank of a tier is
  its position on the ladder.
\<close>

definition UtilizationTier :: "string list" where
  "UtilizationTier = [''idle'', ''low'', ''moderate'', ''high'', ''critical'']"

definition tier_rank :: "string \<Rightarrow> nat" where
  "tier_rank t = length (takeWhile (\<lambda>x. x \<noteq> t) UtilizationTier)"

section \<open>Analyzer (analyzer.py)\<close>

text \<open>
  The analysis of one server: the dictionary that \<^verbatim>\<open>analyze_server\<close> returns, with
  exactly these keys.
\<close>

record Analysis =
  server_id :: int
  avg_cpu_30d :: real
  avg_memory_30d :: real
  peak_cpu_30d :: real
  peak_memory_30d :: real
  utilization_tier :: string

text \<open>The SQL aggregates \<^verbatim>\<open>avg\<close> and \<^verbatim>\<open>max\<close>: NULL over no rows.\<close>

definition sql_avg :: "real list \<Rightarrow> real option" where
  "sql_avg xs = (if xs = [] then None else Some (sum_list xs / real (length xs)))"

definition sql_max :: "real list \<Rightarrow> real option" where
  "sql_max xs = (case xs of [] \<Rightarrow> None | x # ys \<Rightarrow> Some (fold max ys x))"

text \<open>
  \<^verbatim>\<open>analyze_server\<close>: the aggregates over the snapshots of the server in the trailing
  30 days, or \<open>None\<close> when the average is NULL. The four aggregates range over the same
  rows, so the other three are NULL exactly when the first is.
\<close>

definition analyze_server :: "datetime \<Rightarrow> db \<Rightarrow> int \<Rightarrow> Analysis option" where
  "analyze_server now d sid =
     (let cutoff = now - timedelta_days 30;
          rows = filter (\<lambda>m. snap_server_id m = sid \<and> cutoff \<le> timestamp m) (metric_snapshots d)
      in case (sql_avg (map cpu_percent rows), sql_avg (map memory_percent rows),
               sql_max (map cpu_percent rows), sql_max (map memory_percent rows)) of
           (Some row_avg_cpu, Some row_avg_memory, Some row_peak_cpu, Some row_peak_memory) \<Rightarrow>
             (let avg_cpu = py_round row_avg_cpu 2;
                  avg_memory = py_round row_avg_memory 2;
                  peak_cpu = py_round row_peak_cpu 2;
                  peak_memory = py_round row_peak_memory 2
              in Some \<lparr>server_id = sid, avg_cpu_30d = avg_cpu, avg_memory_30d = avg_memory,
                       peak_cpu_30d = peak_cpu, peak_memory_30d = peak_memory,
                       utilization_tier = classify_utilization avg_cpu\<rparr>)
         | _ \<Rightarrow> None)"

text \<open>\<^verbatim>\<open>analyze_all_servers\<close>: one analysis per server row, zeroed when there is none.\<close>

definition analyze_all_servers :: "datetime \<Rightarrow> db \<Rightarrow> Analysis list" where
  "analyze_all_servers now d =
     map (\<lambda>sid. case analyze_server now d sid of
                  Some analysis \<Rightarrow> analysis
                | None \<Rightarrow> \<lparr>server_id = sid, avg_cpu_30d = 0, avg_memory_30d = 0,
                           peak_cpu_30d = 0, peak_memory_30d = 0, utilization_tier = ''idle''\<rparr>)
         (map srv_id (servers d))"

section \<open>Recommendation engine (recommender.py)\<close>

definition PRICE_MAP :: "(string, real) dict" where
  "PRICE_MAP =
     [(''cx11'', 3.29), (''cx21'', 5.39), (''cx31'', 10.49), (''cx41'', 17.49),
      (''cpx11'', 3.85), (''cpx21'', 7.19), (''cpx31'', 13.49), (''cpx41'', 24.49),
      (''ccx13'', 12.49), (''ccx23'', 22.49), (''ccx33'', 42.49)]"

definition DOWNGRADE_MAP :: "(string, string) dict" where
  "DOWNGRADE_MAP =
     [(''cx41'', ''cx31''), (''cx31'', ''cx21''), (''cx21'', ''cx11''),
      (''cpx41'', ''cpx31''), (''cpx31'', ''cpx21''), (''cpx21'', ''cpx11''),
      (''ccx33'', ''ccx23''), (''ccx23'', ''ccx13'')]"

text \<open>\<^verbatim>\<open>_STAGING_PATTERN.search(s)\<close> for the pattern \<^verbatim>\<open>(staging|dev|test)\<close>, ignoring case.\<close>

definition STAGING_PATTERN_search :: "string \<Rightarrow> bool" where
  "STAGING_PATTERN_search s =
     (contains ''staging'' (lower s) \<or> contains ''dev'' (lower s) \<or> contains ''test'' (lower s))"

text \<open>The characters of the rationale texts that are not written in a string literal here.\<close>

definition em_dash :: string where
  "em_dash = [CHR 0xE2, CHR 0x80, CHR 0x94]"

definition apostrophe :: string where
  "apostrophe = [CHR 0x27]"

text \<open>
  A loop that walks a list and appends one record for every item it does not skip
  (\<^verbatim>\<open>continue\<close>).
\<close>

primrec collect :: "('a \<Rightarrow> 'b option) \<Rightarrow> 'a list \<Rightarrow> 'b list" where
  "collect f [] = []"
| "collect f (x # xs) = (case f x of None \<Rightarrow> collect f xs | Some y \<Rightarrow> y # collect f xs)"

text \<open>
  Rule 1, \<^verbatim>\<open>_find_idle_servers\<close>. \<open>idle_candidate\<close> is the body of its loop for one item
  of \<^verbatim>\<open>analysis_by_id\<close>.
\<close>

definition idle_candidate ::
  "datetime \<Rightarrow> (int, Server) dict \<Rightarrow> int \<times> Analysis \<Rightarrow> ConsolidationRecommendation option" where
  "idle_candidate now server_by_id item =
     (let sid = fst item; analysis = snd item
      in if utilization_tier analysis \<noteq> ''idle'' then None
         else case map_of server_by_id sid of
           None \<Rightarrow> None
         | Some server \<Rightarrow>
             if status server \<noteq> ''running'' then None
             else let monthly_cost = monthly_cost_eur server
               in if monthly_cost \<le> 0 then None
                  else let
                    current_type = lower (server_type server);
                    plan =
                      (case map_of DOWNGRADE_MAP current_type of
                         Some (c # cs) \<Rightarrow>
                           (let smaller_type = c # cs;
                                target_cost = dict_get PRICE_MAP smaller_type 0;
                                savings = monthly_cost - target_cost
                            in (target_cost, savings, smaller_type,
                                ''This server is barely using its resources '' @ em_dash @
                                '' averaging just '' @ format_fixed 1 (avg_cpu_30d analysis) @
                                ''% CPU over 30 days (peak '' @
                                format_fixed 1 (peak_cpu_30d analysis) @
                                ''%). Downgrading from '' @ server_type server @ '' to '' @
                                smaller_type @ '' would save EUR '' @ format_fixed 2 savings @
                                ''/mo. Alternatively, its workloads could be consolidated onto '' @
                                ''another server to free up this instance entirely.''))
                       | _ \<Rightarrow>
                           (0, monthly_cost, ''downsize / consolidate'',
                            ''This server is barely using its resources '' @ em_dash @
                            '' averaging just '' @ format_fixed 1 (avg_cpu_30d analysis) @
                            ''% CPU over 30 days (peak '' @
                            format_fixed 1 (peak_cpu_30d analysis) @
                            ''%). Its workloads could likely be consolidated onto another '' @
                            ''server, saving the full EUR '' @ format_fixed 2 monthly_cost @
                            ''/mo. Review what'' @ apostrophe @ ''s running on it to decide '' @
                            ''the best path.''))
                  in case plan of (target_cost, savings, target_label, action_text) \<Rightarrow>
                    Some \<lparr>group_name = ''Underutilized: '' @ name server,
                          server_ids = [srv_id server],
                          target_server_type = target_label,
                          current_total_cost_eur = monthly_cost,
                          projected_cost_eur = target_cost,
                          monthly_savings_eur = savings,
                          rationale = action_text,
                          confidence = high,
                          rec_status = pending,
                          rec_created_at = now\<rparr>)"

definition find_idle_servers ::
  "datetime \<Rightarrow> (int, Server) dict \<Rightarrow> (int, Analysis) dict \<Rightarrow> ConsolidationRecommendation list" where
  "find_idle_servers now server_by_id analysis_by_id =
     collect (idle_candidate now server_by_id) analysis_by_id"

text \<open>
  \<^verbatim>\<open>_pick_target_type_for_combined_load\<close>, in double precision: the quotient
  \<^verbatim>\<open>combined_peak_cpu / 100.0\<close>, its product with the core count (an \<^verbatim>\<open>int\<close>, which
  the multiplication converts to a float), and the quotient by the float \<^verbatim>\<open>0.7\<close> are
  each rounded to a double. The maximum with \<^verbatim>\<open>1.0\<close> and the comparison of an
  \<^verbatim>\<open>int\<close> with a float are exact.
\<close>

definition type_cores :: "(string, int) dict" where
  "type_cores =
     [(''cx11'', 1), (''cx21'', 2), (''cx31'', 4), (''cx41'', 8),
      (''cpx11'', 2), (''cpx21'', 3), (''cpx31'', 4), (''cpx41'', 8),
      (''ccx13'', 2), (''ccx23'', 4), (''ccx33'', 8)]"

definition pick_target_type_for_combined_load :: "real \<Rightarrow> Server list \<Rightarrow> string" where
  "pick_target_type_for_combined_load combined_peak_cpu srvs =
     (let total_original_cores =
            (if sum_list (map cores srvs) \<noteq> 0 then sum_list (map cores srvs) else 1);
          effective_cores_needed =
            float_mul (float_div combined_peak_cpu 100) (float_of (of_int total_original_cores));
          target_cores = max (float_div effective_cores_needed (float_of 0.7)) 1;
          candidates = sort_key snd PRICE_MAP
      in case find (\<lambda>c. target_cores \<le> of_int (dict_get type_cores (fst c) 1)) candidates of
           Some c \<Rightarrow> fst c
         | None \<Rightarrow> (if candidates \<noteq> [] then fst (last candidates) else ''cx41''))"

text \<open>Rule 2, \<^verbatim>\<open>_find_staging_consolidation\<close>\<close>

definition is_staging_server :: "Server \<Rightarrow> bool" where
  "is_staging_server server =
     (status server = ''running'' \<and>
      (STAGING_PATTERN_search (name server) \<or>
       STAGING_PATTERN_search (case project_name server of Some p \<Rightarrow> p | None \<Rightarrow> []) \<or>
       list_ex STAGING_PATTERN_search
         (map snd (case labels server of Some l \<Rightarrow> l | None \<Rightarrow> []))))"

definition find_staging_consolidation ::
  "datetime \<Rightarrow> (int, Server) dict \<Rightarrow> (int, Analysis) dict \<Rightarrow> ConsolidationRecommendation list" where
  "find_staging_consolidation now server_by_id analysis_by_id =
     (let staging_servers = filter is_staging_server (map snd server_by_id)
      in if length staging_servers < 2 then []
         else let
           total_cost = sum_list (map monthly_cost_eur staging_servers);
           srv_ids = map srv_id staging_servers;
           combined_peak_cpu =
             sum_list (map (\<lambda>s. case map_of analysis_by_id (srv_id s) of
                                   Some a \<Rightarrow> peak_cpu_30d a
                                 | None \<Rightarrow> 0) staging_servers);
           target_type = pick_target_type_for_combined_load combined_peak_cpu staging_servers;
           target_cost = dict_get PRICE_MAP target_type (total_cost * 0.5);
           savings = max (total_cost - target_cost) 0
         in if savings \<le> 0 then []
            else [\<lparr>group_name = ''Staging/dev server consolidation'',
                   server_ids = srv_ids,
                   target_server_type = target_type,
                   current_total_cost_eur = py_round total_cost 2,
                   projected_cost_eur = py_round target_cost 2,
                   monthly_savings_eur = py_round savings 2,
                   rationale =
                     ''These non-production servers ('' @ join '', '' (map name staging_servers) @
                     '') cost a combined EUR '' @ format_fixed 2 total_cost @
                     ''/mo but their total peak CPU is only '' @
                     format_fixed 1 combined_peak_cpu @ ''%. They could share a single '' @
                     target_type @ '' (EUR '' @ format_fixed 2 target_cost @
                     ''/mo) with room to spare, saving EUR '' @ format_fixed 2 savings @ ''/mo.'',
                   confidence = medium,
                   rec_status = pending,
                   rec_created_at = now\<rparr>])"

text \<open>
  Rule 3, \<^verbatim>\<open>_find_rightsizing_candidates\<close>. \<open>rightsizing_candidate\<close> is the body of its
  loop for one item of \<^verbatim>\<open>analysis_by_id\<close>.
\<close>

definition rightsizing_candidate ::
  "datetime \<Rightarrow> (int, Server) dict \<Rightarrow> int \<times> Analysis \<Rightarrow> ConsolidationRecommendation option" where
  "rightsizing_candidate now server_by_id item =
     (let sid = fst item; analysis = snd item; peak_cpu = peak_cpu_30d analysis
      in if 30 \<le> peak_cpu then None
         else if utilization_tier analysis = ''idle'' then None
         else case map_of server_by_id sid of
           None \<Rightarrow> None
         | Some server \<Rightarrow>
             if status server \<noteq> ''running'' then None
             else let current_type = lower (server_type server)
               in case map_of DOWNGRADE_MAP current_type of
                 None \<Rightarrow> None
               | Some smaller_type \<Rightarrow>
                   (let current_cost =
                          (if monthly_cost_eur server \<le> 0 then dict_get PRICE_MAP current_type 0
                           else monthly_cost_eur server);
                        target_cost = dict_get PRICE_MAP smaller_type current_cost;
                        savings = current_cost - target_cost
                    in if savings \<le> 0 then None
                       else Some
                         \<lparr>group_name = ''Right-size: '' @ name server,
                          server_ids = [srv_id server],
                          target_server_type = smaller_type,
                          current_total_cost_eur = py_round current_cost 2,
                          projected_cost_eur = py_round target_cost 2,
                          monthly_savings_eur = py_round savings 2,
                          rationale =
                            apostrophe @ name server @ apostrophe @ '' peaks at only '' @
                            format_fixed 1 peak_cpu @ ''% CPU (avg '' @
                            format_fixed 1 (avg_cpu_30d analysis) @ ''%) on a '' @ current_type @
                            ''. A '' @ smaller_type @ '' can comfortably handle this workload '' @
                            ''and would save EUR '' @ format_fixed 2 savings @
                            ''/mo while still leaving plenty of headroom for traffic spikes.'',
                          confidence = medium,
                          rec_status = pending,
                          rec_created_at = now\<rparr>))"

definition find_rightsizing_candidates ::
  "datetime \<Rightarrow> (int, Server) dict \<Rightarrow> (int, Analysis) dict \<Rightarrow> ConsolidationRecommendation list" where
  "find_rightsizing_candidates now server_by_id analysis_by_id =
     collect (rightsizing_candidate now server_by_id) analysis_by_id"

text \<open>
  \<^verbatim>\<open>generate_recommendations\<close>: returns the new records and the database after the
  commit. The clock reads \<open>now\<close> during the whole cycle.
\<close>

definition generate_recommendations ::
  "datetime \<Rightarrow> db \<Rightarrow> ConsolidationRecommendation list \<times> db" where
  "generate_recommendations now d =
     (let analyses = analyze_all_servers now d;
          analysis_by_id = dict_of (map (\<lambda>a. (server_id a, a)) analyses);
          server_by_id = dict_of (map (\<lambda>s. (srv_id s, s)) (servers d));
          remaining = filter (\<lambda>r. rec_status r \<noteq> pending) (consolidation_recommendations d);
          new_recs =
            find_idle_servers now server_by_id analysis_by_id @
            find_staging_consolidation now server_by_id analysis_by_id @
            find_rightsizing_candidates now server_by_id analysis_by_id
      in (new_recs, d\<lparr>consolidation_recommendations := remaining @ new_recs\<rparr>))"

text \<open>
  The records that one cycle creates: the part of \<^verbatim>\<open>generate_recommendations\<close> after
  the deletion, as a function of the clock, the server rows and the analyses.
\<close>

definition new_recommendations ::
  "datetime \<Rightarrow> Server list \<Rightarrow> Analysis list \<Rightarrow> ConsolidationRecommendation list" where
  "new_recommendations now srvs analyses =
     (let analysis_by_id = dict_of (map (\<lambda>a. (server_id a, a)) analyses);
          server_by_id = dict_of (map (\<lambda>s. (srv_id s, s)) srvs)
      in find_idle_servers now server_by_id analysis_by_id @
         find_staging_consolidation now server_by_id analysis_by_id @
         find_rightsizing_candidates now server_by_id analysis_by_id)"

section \<open>API clients (hetzner_cloud.py, hetzner_robot.py)\<close>

text \<open>
  A value that the code passes to \<^verbatim>\<open>float(v)\<close>, by what the conversion does with it:
  it yields a number, or it raises \<^verbatim>\<open>ValueError\<close> or \<^verbatim>\<open>TypeError\<close>.
\<close>

datatype floatable = AsFloat real | NoFloat

text \<open>
  An HTTP response, with what \<^verbatim>\<open>_request\<close> reads of it: the status code, the
  \<^verbatim>\<open>Retry-After\<close> header if there is one, the body text (\<open>response_text\<close>), and the body decoded as
  JSON (\<open>None\<close> when \<^verbatim>\<open>response.json()\<close> raises).
\<close>

record 'j Response =
  status_code :: int
  Retry_After :: "floatable option"
  response_text :: string
  json :: "'j option"

definition MAX_RETRIES :: nat where
  "MAX_RETRIES = 3"

definition INITIAL_BACKOFF_S :: real where
  "INITIAL_BACKOFF_S = 1.0"

text \<open>
  The loop of \<^verbatim>\<open>_request\<close> over the attempts that are left. \<open>responses k\<close> is the
  response of the server to attempt \<open>k\<close> of the call; \<open>mk_error\<close> is the error class of the
  client. The result is the list of the waits (\<^verbatim>\<open>asyncio.sleep\<close>), in order, and the
  value returned or the exception raised. An empty list of attempts is the end of the
  \<^verbatim>\<open>for\<close> loop.
\<close>

fun request_attempts ::
  "(int \<Rightarrow> string \<Rightarrow> error) \<Rightarrow> (nat \<Rightarrow> 'j Response) \<Rightarrow> real \<Rightarrow> nat list \<Rightarrow> real list \<times> (error + 'j)" where
  "request_attempts mk_error responses backoff [] =
     ([], Inl (mk_error 429 ''Rate limit exceeded after max retries''))"
| "request_attempts mk_error responses backoff (attempt # rest) =
     (let response = responses attempt
      in if status_code response = 429 then
           (case (case Retry_After response of None \<Rightarrow> AsFloat backoff | Some h \<Rightarrow> h) of
              NoFloat \<Rightarrow> ([], Inl ValueError)
            | AsFloat retry_after \<Rightarrow>
                (case request_attempts mk_error responses (backoff * 2) rest of
                   (sleeps, outcome) \<Rightarrow> (retry_after # sleeps, outcome)))
         else if 400 \<le> status_code response then
           ([], Inl (mk_error (status_code response) (take 500 (response_text response))))
         else (case json response of None \<Rightarrow> ([], Inl JSONDecodeError) | Some j \<Rightarrow> ([], Inr j)))"

text \<open>\<^verbatim>\<open>HetznerCloudClient._request\<close> and \<^verbatim>\<open>HetznerRobotClient._request\<close>\<close>

definition HetznerCloudClient_request :: "(nat \<Rightarrow> 'j Response) \<Rightarrow> real list \<times> (error + 'j)" where
  "HetznerCloudClient_request responses =
     request_attempts HetznerCloudError responses INITIAL_BACKOFF_S [1 ..< MAX_RETRIES + 1]"

definition HetznerRobotClient_request :: "(nat \<Rightarrow> 'j Response) \<Rightarrow> real list \<times> (error + 'j)" where
  "HetznerRobotClient_request responses =
     request_attempts HetznerRobotError responses INITIAL_BACKOFF_S [1 ..< MAX_RETRIES + 1]"

section \<open>Cloud metric collection (collector.py)\<close>

text \<open>
  The payload of \<^verbatim>\<open>get_server_metrics\<close>: the series map under
  \<^verbatim>\<open>metrics.time_series\<close> and the one under \<^verbatim>\<open>metrics.timeseries\<close>, each absent
  or a dict from the name of a series to its \<^verbatim>\<open>values\<close>, a list of points; a point is
  a list of values, the sample being its second value.
\<close>

type_synonym point = "floatable list"

type_synonym series_map = "(string, point list) dict"

record metrics_payload =
  time_series :: "series_map option"
  timeseries :: "series_map option"

text \<open>\<^verbatim>\<open>metrics_obj.get("time_series") or metrics_obj.get("timeseries", {})\<close>\<close>

definition series_of :: "metrics_payload \<Rightarrow> series_map" where
  "series_of p =
     (case time_series p of
        Some (s # ss) \<Rightarrow> s # ss
      | _ \<Rightarrow> (case timeseries p of Some ts \<Rightarrow> ts | None \<Rightarrow> []))"

text \<open>The CPU samples: a sample that is not a number is skipped.\<close>

definition cpu_samples :: "series_map \<Rightarrow> real list" where
  "cpu_samples ts =
     concat (map (\<lambda>(nm, vs).
       concat (map (\<lambda>pt. if 2 \<le> length pt
                          then (case pt ! 1 of AsFloat v \<Rightarrow> [v] | NoFloat \<Rightarrow> [])
                          else []) vs)) ts)"

text \<open>
  The list comprehension \<^verbatim>\<open>[float(p[1]) for p in values if len(p) >= 2]\<close> of the disk
  and network blocks: \<open>None\<close> when a conversion raises.
\<close>

fun samples :: "point list \<Rightarrow> real list option" where
  "samples [] = Some []"
| "samples (pt # pts) =
     (if 2 \<le> length pt
      then (case pt ! 1 of
              NoFloat \<Rightarrow> None
            | AsFloat v \<Rightarrow> (case samples pts of None \<Rightarrow> None | Some vs \<Rightarrow> Some (v # vs)))
      else samples pts)"

text \<open>
  The loops of the disk and network blocks. An exception leaves the block
  (\<^verbatim>\<open>except Exception: pass\<close>) with the values assigned so far.
\<close>

fun disk_loop :: "real \<Rightarrow> series_map \<Rightarrow> real" where
  "disk_loop disk_pct [] = disk_pct"
| "disk_loop disk_pct ((nm, vs) # rest) =
     (case samples vs of
        None \<Rightarrow> disk_pct
      | Some vals \<Rightarrow>
          disk_loop
            (if vals \<noteq> [] \<and> \<not> contains ''bandwidth.read'' nm \<and> \<not> contains ''bandwidth.write'' nm
             then max disk_pct (sum_list vals / real (length vals)) else disk_pct) rest)"

fun net_loop :: "real \<times> real \<Rightarrow> series_map \<Rightarrow> real \<times> real" where
  "net_loop io [] = io"
| "net_loop io ((nm, vs) # rest) =
     (case samples vs of
        None \<Rightarrow> io
      | Some vals \<Rightarrow>
          net_loop
            (if vals \<noteq> []
             then (let avg_val = sum_list vals / real (length vals);
                       mbps = avg_val * 8 / 1000000
                   in if contains ''in'' nm then (mbps, snd io)
                      else if contains ''out'' nm then (fst io, mbps) else io)
             else io) rest)"

text \<open>
  \<^verbatim>\<open>_collect_cloud_metrics\<close>. The three arguments \<open>cpu_data\<close>, \<open>disk_data\<close> and
  \<open>net_data\<close> are the outcomes of the three calls of \<^verbatim>\<open>get_server_metrics\<close>: a
  payload, or the exception raised. \<open>cloud_metric_snapshot\<close> is the snapshot that the
  function adds to the session, if it adds one.
\<close>

definition cloud_metric_snapshot ::
  "datetime \<Rightarrow> Server \<Rightarrow> error + metrics_payload \<Rightarrow> error + metrics_payload \<Rightarrow>
   error + metrics_payload \<Rightarrow> MetricSnapshot option" where
  "cloud_metric_snapshot now server cpu_data disk_data net_data =
     (case cpu_data of
        Inl e \<Rightarrow> None
      | Inr cpu_payload \<Rightarrow>
          (let cpu_values = cpu_samples (series_of cpu_payload)
           in if cpu_values = [] then None
              else let
                avg_cpu0 = sum_list cpu_values / real (length cpu_values);
                avg_cpu1 = (if 0 < cores server \<and> 100 < avg_cpu0
                            then avg_cpu0 / of_int (cores server) else avg_cpu0);
                avg_cpu = min 100 avg_cpu1;
                disk_pct = (case disk_data of Inl e \<Rightarrow> 0 | Inr p \<Rightarrow> disk_loop 0 (series_of p));
                net = (case net_data of Inl e \<Rightarrow> (0, 0) | Inr p \<Rightarrow> net_loop (0, 0) (series_of p))
              in Some \<lparr>snap_server_id = srv_id server,
                       timestamp = now,
                       cpu_percent = py_round avg_cpu 2,
                       memory_percent = 0,
                       disk_percent = py_round disk_pct 2,
                       network_in_mbps = py_round (fst net) 4,
                       network_out_mbps = py_round (snd net) 4,
                       load_avg_1m = None\<rparr>))"

definition collect_cloud_metrics ::
  "datetime \<Rightarrow> Server \<Rightarrow> error + metrics_payload \<Rightarrow> error + metrics_payload \<Rightarrow>
   error + metrics_payload \<Rightarrow> db \<Rightarrow> db" where
  "collect_cloud_metrics now server cpu_data disk_data net_data d =
     (case cloud_metric_snapshot now server cpu_data disk_data net_data of
        None \<Rightarrow> d
      | Some snapshot \<Rightarrow> d\<lparr>metric_snapshots := metric_snapshots d @ [snapshot]\<rparr>)"

section \<open>Agent report ingestion and the service query (routes/servers.py)\<close>

text \<open>\<^verbatim>\<open>ServiceType(value)\<close>: \<open>None\<close> when the constructor raises \<^verbatim>\<open>ValueError\<close>.\<close>

definition ServiceType_of :: "string \<Rightarrow> ServiceType option" where
  "ServiceType_of v =
     (if v = ''docker'' then Some docker
      else if v = ''systemd'' then Some systemd
      else if v = ''port'' then Some port
      else None)"

text \<open>The loop over \<^verbatim>\<open>report.services\<close> that builds the new service rows.\<close>

fun new_services :: "int \<Rightarrow> datetime \<Rightarrow> AgentServiceReport list \<Rightarrow> RunningService list option" where
  "new_services sid now [] = Some []"
| "new_services sid now (svc_report # rest) =
     (case ServiceType_of (rep_service_type svc_report) of
        None \<Rightarrow> None
      | Some ty \<Rightarrow>
          (case new_services sid now rest of
             None \<Rightarrow> None
           | Some svcs \<Rightarrow>
               Some (\<lparr>svc_server_id = sid,
                      service_type = ty,
                      svc_name = rep_name svc_report,
                      svc_port = rep_port svc_report,
                      svc_status = rep_status svc_report,
                      svc_cpu_percent = rep_svc_cpu_percent svc_report,
                      svc_memory_mb = rep_memory_mb svc_report,
                      discovered_at = now,
                      svc_last_seen_at = now\<rparr> # svcs)))"

text \<open>
  The key that the database gives a new server row on \<^verbatim>\<open>flush\<close>: one more than the
  largest key in use, the rule of SQLite (the configured database) for an integer primary
  key.
\<close>

definition fresh_server_id :: "Server list \<Rightarrow> int" where
  "fresh_server_id ss = foldr max (map srv_id ss) 0 + 1"

text \<open>
  \<^verbatim>\<open>agent_report\<close>: the response or the exception, and the database after the
  request. The changes of a request that raises before its \<^verbatim>\<open>commit\<close> are not
  committed, so the database is then the one before the request. The clock reads \<open>now\<close>
  during the whole request. \<^verbatim>\<open>scalar_one_or_none\<close> raises when more than one row has
  the address; the \<^verbatim>\<open>flush\<close> of a new row raises when its \<^verbatim>\<open>hetzner_id\<close>, a unique
  column, is in use.
\<close>

definition agent_report ::
  "Settings \<Rightarrow> datetime \<Rightarrow> AgentReport \<Rightarrow> db \<Rightarrow> (error + (string, string) dict) \<times> db" where
  "agent_report settings now report d =
     (if secret report \<noteq> agent_secret settings
      then (Inl (HTTPException 403 ''Invalid agent secret''), d)
      else
        (case
           (case filter (\<lambda>s. ipv4 s = server_ip report) (servers d) of
              [] \<Rightarrow>
                (if list_ex (\<lambda>s. hetzner_id s = ''agent-'' @ server_ip report) (servers d)
                 then Inl IntegrityError
                 else let srv = \<lparr>srv_id = fresh_server_id (servers d),
                                  hetzner_id = ''agent-'' @ server_ip report,
                                  name = hostname report,
                                  server_type = ''dedicated'',
                                  source = dedicated,
                                  status = ''running'',
                                  datacenter = [],
                                  ipv4 = server_ip report,
                                  cores = 0,
                                  memory_gb = 0,
                                  disk_gb = 0,
                                  monthly_cost_eur = 0,
                                  labels = None,
                                  project_name = None,
                                  created_at = now,
                                  last_seen_at = now,
                                  updated_at = now\<rparr>
                      in Inr (srv_id srv, servers d @ [srv]))
            | [srv] \<Rightarrow>
                Inr (srv_id srv,
                     map (\<lambda>s. if ipv4 s = server_ip report
                               then s\<lparr>last_seen_at := now, name := hostname report,
                                      updated_at := now\<rparr>
                               else s) (servers d))
            | _ \<Rightarrow> Inl MultipleResultsFound) of
           Inl e \<Rightarrow> (Inl e, d)
         | Inr (sid, servers') \<Rightarrow>
             (let snapshot = \<lparr>snap_server_id = sid,
                              timestamp = now,
                              cpu_percent = rep_cpu_percent report,
                              memory_percent = rep_memory_percent report,
                              disk_percent = rep_disk_percent report,
                              network_in_mbps = rep_network_in_mbps report,
                              network_out_mbps = rep_network_out_mbps report,
                              load_avg_1m = rep_load_avg_1m report\<rparr>;
                  kept = filter (\<lambda>v. svc_server_id v \<noteq> sid) (running_services d)
              in case new_services sid now (services report) of
                   None \<Rightarrow> (Inl ValueError, d)
                 | Some svcs \<Rightarrow>
                     (Inr [(''status'', ''ok'')],
                      d\<lparr>servers := servers',
                        metric_snapshots := metric_snapshots d @ [snapshot],
                        running_services := kept @ svcs\<rparr>))))"

text \<open>
  \<^verbatim>\<open>get_server_services\<close>: the service rows of the server, ordered by name (the response
  items are these rows without the \<^verbatim>\<open>server_id\<close> column).
\<close>

definition get_server_services :: "int \<Rightarrow> db \<Rightarrow> error + RunningService list" where
  "get_server_services sid d =
     (case filter (\<lambda>s. srv_id s = sid) (servers d) of
        [] \<Rightarrow> Inl (HTTPException 404 ''Server not found'')
      | [srv] \<Rightarrow>
          Inr (sort_key svc_name (filter (\<lambda>v. svc_server_id v = sid) (running_services d)))
      | _ \<Rightarrow> Inl MultipleResultsFound)"

section \<open>Example data\<close>

text \<open>Concrete values at which the theorems below are instantiated.\<close>

definition example_settings :: Settings where
  "example_settings =
     \<lparr>hetzner_cloud_api_token = ''token'', hetzner_robot_user = [],
      hetzner_robot_password = [], agent_secret = ''change-me''\<rparr>"

definition example_server :: Server where
  "example_server =
     \<lparr>srv_id = 1, hetzner_id = ''4711'', name = ''web-1'', server_type = ''cx41'',
      source = cloud, status = ''running'', datacenter = ''fsn1-dc14'', ipv4 = ''10.0.0.1'',
      cores = 4, memory_gb = 16, disk_gb = 160, monthly_cost_eur = 17.49,
      labels = Some [], project_name = None, created_at = 0, last_seen_at = 0,
      updated_at = 0\<rparr>"

definition example_cpu_payload :: metrics_payload where
  "example_cpu_payload =
     \<lparr>time_series = Some [(''cpu'', [[AsFloat 1700000000, AsFloat 350]])], timeseries = None\<rparr>"

definition example_snapshot :: MetricSnapshot where
  "example_snapshot =
     \<lparr>snap_server_id = 1, timestamp = 1700000000000000, cpu_percent = 87.5, memory_percent = 0,
      disk_percent = 0, network_in_mbps = 0, network_out_mbps = 0, load_avg_1m = None\<rparr>"

definition example_db :: db where
  "example_db =
     \<lparr>servers = [example_server], metric_snapshots = [example_snapshot],
      running_services = [], consolidation_recommendations = []\<rparr>"

definition example_report :: AgentReport where
  "example_report =
     \<lparr>hostname = ''db-1'', server_ip = ''10.0.0.2'', rep_cpu_percent = 12.5,
      rep_memory_percent = 40, rep_disk_percent = 55, rep_network_in_mbps = 0,
      rep_network_out_mbps = 0, rep_load_avg_1m = None,
      services = [\<lparr>rep_name = ''nginx'', rep_service_type = ''systemd'', rep_port = Some 80,
                   rep_status = ''running'', rep_svc_cpu_percent = None, rep_memory_mb = None\<rparr>],
      secret = ''guess''\<rparr>"

definition example_response :: "int \<Rightarrow> floatable option \<Rightarrow> string \<Rightarrow> unit Response" where
  "example_response code hint body =
     \<lparr>status_code = code, Retry_After = hint, response_text = body,
      json = (if code < 400 then Some () else None)\<rparr>"

definition responses_ok :: "nat \<Rightarrow> unit Response" where
  "responses_ok = (\<lambda>k. example_response 200 None ''{}'')"

definition responses_not_found :: "nat \<Rightarrow> unit Response" where
  "responses_not_found =
     (\<lambda>k. if k = 1 then example_response 429 None []
          else example_response 404 None (replicate 600 CHR ''x''))"

definition responses_hint :: "nat \<Rightarrow> unit Response" where
  "responses_hint =
     (\<lambda>k. if k = 1 then example_response 429 None []
          else if k = 2 then example_response 429 (Some (AsFloat 7)) []
          else example_response 200 None ''{}'')"

definition responses_throttled :: "nat \<Rightarrow> unit Response" where
  "responses_throttled = (\<lambda>k. example_response 429 None [])"

definition responses_date_hint :: "nat \<Rightarrow> unit Response" where
  "responses_date_hint =
     (\<lambda>k. if k = 1 then example_response 429 (Some NoFloat) []
          else example_response 200 None ''{}'')"

definition example_report_a :: AgentReport where
  "example_report_a = example_report\<lparr>secret := ''change-me''\<rparr>"

definition example_report_b :: AgentReport where
  "example_report_b =
     example_report
       \<lparr>services := [\<lparr>rep_name = ''postgres'', rep_service_type = ''docker'', rep_port = Some 5432,
                      rep_status = ''running'', rep_svc_cpu_percent = Some 1.5,
                      rep_memory_mb = Some 256\<rparr>,
                     \<lparr>rep_name = ''cron'', rep_service_type = ''systemd'', rep_port = None,
                      rep_status = ''running'', rep_svc_cpu_percent = None,
                      rep_memory_mb = None\<rparr>],
        secret := ''change-me''\<rparr>"

definition example_accepted :: ConsolidationRecommendation where
  "example_accepted =
     \<lparr>group_name = ''Right-size: api-1'', server_ids = [7], target_server_type = ''cx21'',
      current_total_cost_eur = 10.49, projected_cost_eur = 5.39, monthly_savings_eur = 5.1,
      rationale = ''accepted last month'', confidence = medium, rec_status = accepted,
      rec_created_at = 1\<rparr>"

definition example_stale :: ConsolidationRecommendation where
  "example_stale = example_accepted\<lparr>rec_status := pending, rec_created_at := 2\<rparr>"

definition example_idle_db :: db where
  "example_idle_db =
     \<lparr>servers = [example_server], metric_snapshots = [],
      running_services = [],
      consolidation_recommendations = [example_stale, example_accepted]\<rparr>"

definition example_analysis :: Analysis where
  "example_analysis =
     \<lparr>server_id = 1, avg_cpu_30d = 2, avg_memory_30d = 0, peak_cpu_30d = 9.5,
      peak_memory_30d = 0, utilization_tier = classify_utilization 2\<rparr>"

definition example_rightsize_db :: db where
  "example_rightsize_db =
     \<lparr>servers = [example_server\<lparr>monthly_cost_eur := 10.875\<rparr>],
      metric_snapshots = [example_snapshot\<lparr>cpu_percent := 10\<rparr>],
      running_services = [],
      consolidation_recommendations = []\<rparr>"

definition example_cheap_db :: db where
  "example_cheap_db =
     \<lparr>servers = [example_server\<lparr>monthly_cost_eur := 9.99\<rparr>],
      metric_snapshots = [],
      running_services = [],
      consolidation_recommendations = []\<rparr>"















section \<open>Properties of the tier classifier\<close>

lemma tier_rank_simps:
  "tier_rank ''idle'' = 0" "tier_rank ''low'' = 1" "tier_rank ''moderate'' = 2"
  "tier_rank ''high'' = 3" "tier_rank ''critical'' = 4"
  by (simp_all add: tier_rank_def UtilizationTier_def)

lemma routes_classify_utilization_eq:
  "routes_classify_utilization m = classify_utilization m"
  by (simp add: routes_classify_utilization_def classify_utilization_def)

lemma classify_utilization_mono:
  "m1 \<le> m2 \<Longrightarrow> tier_rank (classify_utilization m1) \<le> tier_rank (classify_utilization m2)"
  by (simp add: classify_utilization_def tier_rank_simps)

text \<open>
  Claim C3. Both copies of the tier classifier are functions of the mean CPU value alone;
  each returns idle below 5, low from 5 up to (not including) 20, moderate from 20 up to 60,
  high from 60 up to 85 and critical from 85 on; and each is monotonic: a larger mean never
  gets a tier that is lower on the ladder.
\<close>

theorem classify_utilization_ladder:
  fixes m m1 m2 :: real
  defines "ladder f \<equiv>
     (m < 5 \<longrightarrow> f m = ''idle'') \<and>
     (5 \<le> m \<and> m < 20 \<longrightarrow> f m = ''low'') \<and>
     (20 \<le> m \<and> m < 60 \<longrightarrow> f m = ''moderate'') \<and>
     (60 \<le> m \<and> m < 85 \<longrightarrow> f m = ''high'') \<and>
     (85 \<le> m \<longrightarrow> f m = ''critical'') \<and>
     (m1 \<le> m2 \<longrightarrow> tier_rank (f m1) \<le> tier_rank (f m2))"
  shows "ladder classify_utilization \<and> ladder routes_classify_utilization"
proof -
  have "ladder classify_utilization"
    unfolding ladder_def using classify_utilization_mono [of m1 m2]
    by (simp add: classify_utilization_def)
  moreover have "routes_classify_utilization = classify_utilization"
    by (rule ext) (rule routes_classify_utilization_eq)
  ultimately show ?thesis by simp
qed

theorem classify_utilization_ladder_witness:
  "classify_utilization 2 = ''idle'' \<and> classify_utilization 5 = ''low'' \<and>
   classify_utilization 20 = ''moderate'' \<and> classify_utilization 60 = ''high'' \<and>
   classify_utilization 85 = ''critical'' \<and>
   routes_classify_utilization 4.99 = ''idle'' \<and> routes_classify_utilization 19.99 = ''low'' \<and>
   routes_classify_utilization 59.99 = ''moderate'' \<and> routes_classify_utilization 84.99 = ''high'' \<and>
   routes_classify_utilization 100 = ''critical'' \<and>
   tier_rank (classify_utilization 4.99) \<le> tier_rank (classify_utilization 85) \<and>
   tier_rank (routes_classify_utilization 19.99) \<le> tier_rank (routes_classify_utilization 20)"
  using classify_utilization_ladder [of "2" "4.99" "85"] classify_utilization_ladder [of "5" "19.99" "20"]
    classify_utilization_ladder [of "20" "0" "0"] classify_utilization_ladder [of "60" "0" "0"]
    classify_utilization_ladder [of "85" "0" "0"] classify_utilization_ladder [of "4.99" "0" "0"]
    classify_utilization_ladder [of "19.99" "0" "0"] classify_utilization_ladder [of "59.99" "0" "0"]
    classify_utilization_ladder [of "84.99" "0" "0"] classify_utilization_ladder [of "100" "0" "0"]
  by simp

section \<open>Properties of rounding\<close>


lemma round_half_even_ge: "of_int k \<le> x \<Longrightarrow> k \<le> round_half_even x"
proof -
  assume "of_int k \<le> x"
  then have "k \<le> \<lfloor>x\<rfloor>" by (simp add: le_floor_iff)
  then show ?thesis by (simp add: round_half_even_def Let_def)
qed

lemma round_half_even_of_int [simp]: "round_half_even (of_int k) = k"
  by (simp add: round_half_even_def)


lemma py_round_ge: "of_int k \<le> x \<Longrightarrow> of_int k \<le> py_round x n"
proof -
  assume "of_int k \<le> x"
  then have "of_int (k * 10 ^ n) \<le> x * 10 ^ n" by simp
  then have "k * 10 ^ n \<le> round_half_even (x * 10 ^ n)" by (rule round_half_even_ge)
  then have "(of_int (k * 10 ^ n) :: real) \<le> of_int (round_half_even (x * 10 ^ n))"
    by (simp only: of_int_le_iff)
  then show ?thesis by (simp add: py_round_def le_divide_eq)
qed

lemma py_round_0 [simp]: "py_round 0 n = 0"
  using round_half_even_of_int [of 0] by (simp add: py_round_def del: round_half_even_of_int)

lemma py_round_nonneg: "0 \<le> x \<Longrightarrow> 0 \<le> py_round x n"
  using py_round_ge [of 0 x n] by simp

section \<open>Properties of the analyzer and of cloud metric collection\<close>

lemma sql_avg_zero: "\<forall>x \<in> set xs. x = 0 \<Longrightarrow> sql_avg xs = Some v \<Longrightarrow> v = 0"
proof -
  assume z: "\<forall>x \<in> set xs. x = 0" and s: "sql_avg xs = Some v"
  from z have "sum_list xs = 0" by (induction xs) auto
  with s show ?thesis by (auto simp: sql_avg_def split: if_splits)
qed

lemma fold_max_zero: "\<forall>x \<in> set xs. x = (0::real) \<Longrightarrow> fold max xs 0 = 0"
  by (induction xs) auto

lemma sql_max_zero: "\<forall>x \<in> set xs. x = 0 \<Longrightarrow> sql_max xs = Some v \<Longrightarrow> v = 0"
  by (cases xs) (auto simp: sql_max_def fold_max_zero)

lemma cloud_metric_snapshot_memory:
  "cloud_metric_snapshot now server cpu_data disk_data net_data = Some snap \<Longrightarrow>
   memory_percent snap = 0"
  by (auto simp: cloud_metric_snapshot_def Let_def split: sum.splits if_splits)

lemma analyze_server_memory_zero:
  assumes "\<forall>m \<in> set (metric_snapshots d). snap_server_id m = sid \<longrightarrow> memory_percent m = 0"
    and "analyze_server now d sid = Some a"
  shows "avg_memory_30d a = 0 \<and> peak_memory_30d a = 0"
proof -
  define rows where "rows = filter (\<lambda>m. snap_server_id m = sid \<and> now - timedelta_days 30 \<le> timestamp m) (metric_snapshots d)"
  have z: "\<forall>x \<in> set (map memory_percent rows). x = 0"
    using assms(1) by (auto simp: rows_def)
  from assms(2) obtain ac am pc pm where
    am: "sql_avg (map memory_percent rows) = Some am" and
    pm: "sql_max (map memory_percent rows) = Some pm" and
    a: "avg_memory_30d a = py_round am 2" "peak_memory_30d a = py_round pm 2"
    by (auto simp: analyze_server_def Let_def rows_def split: option.splits)
  from sql_avg_zero [OF z am] sql_max_zero [OF z pm] a show ?thesis by simp
qed

lemma analyze_all_servers_memory_zero:
  assumes "\<forall>m \<in> set (metric_snapshots d). snap_server_id m = sid \<longrightarrow> memory_percent m = 0"
    and "a \<in> set (analyze_all_servers now d)" and "server_id a = sid"
  shows "avg_memory_30d a = 0 \<and> peak_memory_30d a = 0"
proof -
  from assms(2) obtain i where i: "a = (case analyze_server now d i of Some x \<Rightarrow> x
      | None \<Rightarrow> \<lparr>server_id = i, avg_cpu_30d = 0, avg_memory_30d = 0,
                           peak_cpu_30d = 0, peak_memory_30d = 0, utilization_tier = ''idle''\<rparr>)"
    by (auto simp: analyze_all_servers_def)
  show ?thesis
  proof (cases "analyze_server now d i")
    case None
    with i show ?thesis by simp
  next
    case (Some x)
    with i have ax: "a = x" by simp
    from Some have "server_id x = i" by (auto simp: analyze_server_def Let_def split: option.splits)
    with ax assms(3) have "i = sid" by simp
    with Some ax analyze_server_memory_zero [OF assms(1)] show ?thesis by simp
  qed
qed

lemma example_cloud_snapshot:
  "cloud_metric_snapshot 1700000000000000 example_server (Inr example_cpu_payload)
     (Inl (HetznerCloudError 500 [])) (Inl (HetznerCloudError 500 [])) = Some example_snapshot"
  by (simp add: cloud_metric_snapshot_def example_server_def example_cpu_payload_def
      example_snapshot_def series_of_def cpu_samples_def py_round_def round_half_even_def Let_def)

section \<open>Agent report authorization\<close>

text \<open>
  Claim C8. A report whose secret is not the configured one is answered with the forbidden
  signal (status 403), and the database after the request is the database before it: no
  server row, snapshot row or service row is created, changed or deleted.
\<close>

theorem agent_report_forbidden:
  "secret report \<noteq> agent_secret settings \<Longrightarrow>
   agent_report settings now report d = (Inl (HTTPException 403 ''Invalid agent secret''), d)"
  by (simp add: agent_report_def)

theorem agent_report_forbidden_witness:
  "secret example_report \<noteq> agent_secret example_settings \<and>
   agent_report example_settings 5 example_report example_db =
     (Inl (HTTPException 403 ''Invalid agent secret''), example_db)"
proof -
  have h: "secret example_report \<noteq> agent_secret example_settings"
    by (simp add: example_report_def example_settings_def)
  from h agent_report_forbidden [OF h] show ?thesis by simp
qed

section \<open>CPU normalization and the memory column of cloud snapshots\<close>



text \<open>
  Claim C10. Every snapshot written by the cloud collection path has memory percentage 0;
  so when all the snapshots of a server come from that path, the mean and the peak memory
  that the analyzer reports for the server are 0.
\<close>

theorem cloud_memory_zero:
  "(cloud_metric_snapshot t server cpu_data disk_data net_data = Some snap \<longrightarrow>
      memory_percent snap = 0) \<and>
   ((\<forall>m \<in> set (metric_snapshots d). snap_server_id m = sid \<longrightarrow>
        (\<exists>t' srv c dk n. cloud_metric_snapshot t' srv c dk n = Some m)) \<longrightarrow>
    (\<forall>a. analyze_server now d sid = Some a \<longrightarrow> avg_memory_30d a = 0 \<and> peak_memory_30d a = 0) \<and>
    (\<forall>a \<in> set (analyze_all_servers now d). server_id a = sid \<longrightarrow>
        avg_memory_30d a = 0 \<and> peak_memory_30d a = 0))"
proof -
  have 1: "cloud_metric_snapshot t server cpu_data disk_data net_data = Some snap \<longrightarrow>
      memory_percent snap = 0"
    by (simp add: cloud_metric_snapshot_memory)
  have 2: "(\<forall>a. analyze_server now d sid = Some a \<longrightarrow> avg_memory_30d a = 0 \<and> peak_memory_30d a = 0) \<and>
    (\<forall>a \<in> set (analyze_all_servers now d). server_id a = sid \<longrightarrow>
        avg_memory_30d a = 0 \<and> peak_memory_30d a = 0)"
    if h: "\<forall>m \<in> set (metric_snapshots d). snap_server_id m = sid \<longrightarrow>
        (\<exists>t' srv c dk n. cloud_metric_snapshot t' srv c dk n = Some m)"
  proof -
    from h have z: "\<forall>m \<in> set (metric_snapshots d). snap_server_id m = sid \<longrightarrow> memory_percent m = 0"
      using cloud_metric_snapshot_memory by blast
    show ?thesis
      using analyze_server_memory_zero [OF z] analyze_all_servers_memory_zero [OF z] by blast
  qed
  from 1 2 show ?thesis by blast
qed

theorem cloud_memory_zero_witness:
  "cloud_metric_snapshot 1700000000000000 example_server (Inr example_cpu_payload)
     (Inl (HetznerCloudError 500 [])) (Inl (HetznerCloudError 500 [])) = Some example_snapshot \<and>
   metric_snapshots example_db = [example_snapshot] \<and>
   memory_percent example_snapshot = 0 \<and>
   (\<exists>a. analyze_server 1700000000000000 example_db 1 = Some a \<and>
        analyze_all_servers 1700000000000000 example_db = [a] \<and>
        avg_memory_30d a = 0 \<and> peak_memory_30d a = 0)"
proof -
  have h: "\<forall>m \<in> set (metric_snapshots example_db). snap_server_id m = 1 \<longrightarrow>
        (\<exists>t' srv c dk n. cloud_metric_snapshot t' srv c dk n = Some m)"
  proof -
    have "\<exists>t' srv c dk n. cloud_metric_snapshot t' srv c dk n = Some example_snapshot"
      using example_cloud_snapshot by blast
    then show ?thesis by (simp add: example_db_def)
  qed
  obtain a where a: "analyze_server 1700000000000000 example_db 1 = Some a"
    by (simp add: analyze_server_def example_db_def example_snapshot_def timedelta_days_def
        sql_avg_def sql_max_def Let_def)
  then have l: "analyze_all_servers 1700000000000000 example_db = [a]"
    by (simp add: analyze_all_servers_def example_db_def example_server_def)
  have m: "metric_snapshots example_db = [example_snapshot]"
    by (simp add: example_db_def)
  from h a l m cloud_memory_zero [of 1700000000000000 example_server "Inr example_cpu_payload"
      "Inl (HetznerCloudError 500 [])" "Inl (HetznerCloudError 500 [])" example_snapshot
      example_db 1 1700000000000000] example_cloud_snapshot
  show ?thesis by auto
qed

section \<open>The retry loop of the API clients\<close>

lemma attempts_upt: "[1 ..< MAX_RETRIES + 1] = [1, 2, 3]"
  by (simp add: MAX_RETRIES_def upt_rec)

lemma request_attempts_final:
  "status_code (responses k) \<noteq> 429 \<Longrightarrow>
   request_attempts mk responses b (k # rest) =
     ([], if 400 \<le> status_code (responses k)
          then Inl (mk (status_code (responses k)) (take 500 (response_text (responses k))))
          else (case json (responses k) of Some j \<Rightarrow> Inr j | None \<Rightarrow> Inl JSONDecodeError))"
  by (simp add: Let_def split: option.splits)

lemma request_attempts_throttled:
  "status_code (responses k) = 429 \<Longrightarrow> Retry_After (responses k) \<noteq> Some NoFloat \<Longrightarrow>
   request_attempts mk responses b (k # rest) =
     ((case Retry_After (responses k) of Some (AsFloat h) \<Rightarrow> h | _ \<Rightarrow> b) #
        fst (request_attempts mk responses (b * 2) rest),
      snd (request_attempts mk responses (b * 2) rest))"
  by (simp add: Let_def split: option.splits floatable.splits prod.splits)

lemma request_attempts_contract:
  fixes responses :: "nat \<Rightarrow> 'j Response" and mk :: "int \<Rightarrow> string \<Rightarrow> error"
  assumes "\<forall>k \<in> {1, 2, 3}. status_code (responses k) = 429 \<longrightarrow>
             Retry_After (responses k) \<noteq> Some NoFloat"
  defines "wait \<equiv> \<lambda>k. case Retry_After (responses k) of
                          Some (AsFloat h) \<Rightarrow> h | _ \<Rightarrow> 2 ^ (k - 1)"
  defines "final \<equiv> \<lambda>r. if 400 \<le> status_code r
                          then Inl (mk (status_code r) (take 500 (response_text r)))
                          else (case json r of Some j \<Rightarrow> Inr j | None \<Rightarrow> Inl JSONDecodeError)"
  defines "req \<equiv> request_attempts mk responses INITIAL_BACKOFF_S [1 ..< MAX_RETRIES + 1]"
  shows "(status_code (responses 1) \<noteq> 429 \<longrightarrow> req = ([], final (responses 1))) \<and>
     (status_code (responses 1) = 429 \<and> status_code (responses 2) \<noteq> 429 \<longrightarrow>
        req = ([wait 1], final (responses 2))) \<and>
     (status_code (responses 1) = 429 \<and> status_code (responses 2) = 429 \<and>
      status_code (responses 3) \<noteq> 429 \<longrightarrow>
        req = ([wait 1, wait 2], final (responses 3))) \<and>
     (status_code (responses 1) = 429 \<and> status_code (responses 2) = 429 \<and>
      status_code (responses 3) = 429 \<longrightarrow>
        req = ([wait 1, wait 2, wait 3],
               Inl (mk 429 ''Rate limit exceeded after max retries'')))"
proof -
  have w1: "(case Retry_After (responses 1) of Some (AsFloat h) \<Rightarrow> h | _ \<Rightarrow> 1) = wait 1"
    by (simp add: wait_def split: option.splits floatable.splits)
  have w2: "(case Retry_After (responses 2) of Some (AsFloat h) \<Rightarrow> h | _ \<Rightarrow> 2) = wait 2"
    by (simp add: wait_def split: option.splits floatable.splits)
  have w3: "(case Retry_After (responses 3) of Some (AsFloat h) \<Rightarrow> h | _ \<Rightarrow> 4) = wait 3"
    by (simp add: wait_def split: option.splits floatable.splits)
  have h: "status_code (responses 1) = 429 \<Longrightarrow> Retry_After (responses 1) \<noteq> Some NoFloat"
    "status_code (responses 2) = 429 \<Longrightarrow> Retry_After (responses 2) \<noteq> Some NoFloat"
    "status_code (responses 3) = 429 \<Longrightarrow> Retry_After (responses 3) \<noteq> Some NoFloat"
    using assms(1) by simp_all
  have r: "req = request_attempts mk responses 1 [1, 2, 3]"
    by (simp only: req_def attempts_upt INITIAL_BACKOFF_S_def) simp
  have c1: "req = ([], final (responses 1))" if "status_code (responses 1) \<noteq> 429"
    unfolding r final_def using request_attempts_final [of responses 1 mk 1 "[2, 3]", OF that] .
  have t1: "req = (wait 1 # fst (request_attempts mk responses 2 [2, 3]),
                   snd (request_attempts mk responses 2 [2, 3]))"
    if "status_code (responses 1) = 429"
    using request_attempts_throttled [of responses 1 mk 1 "[2, 3]", OF that h(1) [OF that]]
    by (simp only: r w1) simp
  have c2: "req = ([wait 1], final (responses 2))"
    if "status_code (responses 1) = 429" "status_code (responses 2) \<noteq> 429"
    using t1 [OF that(1)] request_attempts_final [of responses 2 mk 2 "[3]", OF that(2)]
    by (simp only: final_def fst_conv snd_conv)
  have t2: "request_attempts mk responses 2 [2, 3] =
              (wait 2 # fst (request_attempts mk responses 4 [3]),
               snd (request_attempts mk responses 4 [3]))"
    if "status_code (responses 2) = 429"
    using request_attempts_throttled [of responses 2 mk 2 "[3]", OF that h(2) [OF that]]
    by (simp only: w2) simp
  have c3: "req = ([wait 1, wait 2], final (responses 3))"
    if "status_code (responses 1) = 429" "status_code (responses 2) = 429"
       "status_code (responses 3) \<noteq> 429"
    using t1 [OF that(1)] t2 [OF that(2)] request_attempts_final [of responses 3 mk 4 "[]", OF that(3)]
    by (simp only: final_def fst_conv snd_conv)
  have t3: "request_attempts mk responses 4 [3] =
              ([wait 3], Inl (mk 429 ''Rate limit exceeded after max retries''))"
    if "status_code (responses 3) = 429"
    using request_attempts_throttled [of responses 3 mk 4 "[]", OF that h(3) [OF that]]
    by (simp only: w3 request_attempts.simps(1) fst_conv snd_conv)
  have c4: "req = ([wait 1, wait 2, wait 3],
                   Inl (mk 429 ''Rate limit exceeded after max retries''))"
    if "status_code (responses 1) = 429" "status_code (responses 2) = 429"
       "status_code (responses 3) = 429"
    using t1 [OF that(1)] t2 [OF that(2)] t3 [OF that(3)]
    by (simp only: fst_conv snd_conv)
  from c1 c2 c3 c4 show ?thesis by blast
qed

text \<open>
  For both clients, provided that every \<^verbatim>\<open>Retry-After\<close> value sent with a
  throttling response is a number: a call makes at most three attempts; after a throttling
  response (status 429) it waits the hint of that response if there is one and otherwise a
  backoff of 1 second at the first attempt, doubled at every further attempt, and tries
  again; the first response that is not a throttling response ends the call, with the typed
  error of the client, carrying the status code and the first 500 characters of the body,
  when its status is at least 400; and three throttling responses end the call with the
  typed error of the client for status 429.
\<close>

lemma request_retry_contract:
  fixes responses :: "nat \<Rightarrow> 'j Response"
  assumes "\<forall>k \<in> {1, 2, 3}. status_code (responses k) = 429 \<longrightarrow>
             Retry_After (responses k) \<noteq> Some NoFloat"
  defines "wait \<equiv> \<lambda>k. case Retry_After (responses k) of
                          Some (AsFloat h) \<Rightarrow> h | _ \<Rightarrow> 2 ^ (k - 1)"
  defines "final \<equiv> \<lambda>mk r. if 400 \<le> status_code r
                          then Inl (mk (status_code r) (take 500 (response_text r)))
                          else (case json r of Some j \<Rightarrow> Inr j | None \<Rightarrow> Inl JSONDecodeError)"
  defines "contract \<equiv> \<lambda>mk req.
     (status_code (responses 1) \<noteq> 429 \<longrightarrow> req = ([], final mk (responses 1))) \<and>
     (status_code (responses 1) = 429 \<and> status_code (responses 2) \<noteq> 429 \<longrightarrow>
        req = ([wait 1], final mk (responses 2))) \<and>
     (status_code (responses 1) = 429 \<and> status_code (responses 2) = 429 \<and>
      status_code (responses 3) \<noteq> 429 \<longrightarrow>
        req = ([wait 1, wait 2], final mk (responses 3))) \<and>
     (status_code (responses 1) = 429 \<and> status_code (responses 2) = 429 \<and>
      status_code (responses 3) = 429 \<longrightarrow>
        req = ([wait 1, wait 2, wait 3],
               Inl (mk 429 ''Rate limit exceeded after max retries'')))"
  shows "contract HetznerCloudError (HetznerCloudClient_request responses) \<and>
         contract HetznerRobotError (HetznerRobotClient_request responses)"
  unfolding contract_def final_def wait_def HetznerCloudClient_request_def
    HetznerRobotClient_request_def
  using request_attempts_contract [OF assms(1), of HetznerCloudError]
    request_attempts_contract [OF assms(1), of HetznerRobotError]
  by blast

lemma request_retry_contract_examples:
  "HetznerCloudClient_request responses_ok = ([], Inr ()) \<and>
   HetznerCloudClient_request responses_not_found =
     ([1], Inl (HetznerCloudError 404 (replicate 500 CHR ''x''))) \<and>
   HetznerRobotClient_request responses_not_found =
     ([1], Inl (HetznerRobotError 404 (replicate 500 CHR ''x''))) \<and>
   HetznerRobotClient_request responses_hint = ([1, 7], Inr ()) \<and>
   HetznerCloudClient_request responses_throttled =
     ([1, 2, 4], Inl (HetznerCloudError 429 ''Rate limit exceeded after max retries'')) \<and>
   HetznerRobotClient_request responses_throttled =
     ([1, 2, 4], Inl (HetznerRobotError 429 ''Rate limit exceeded after max retries''))"
proof -
  have 1: "\<forall>k \<in> {1, 2, 3}. status_code (responses_ok k) = 429 \<longrightarrow>
             Retry_After (responses_ok k) \<noteq> Some NoFloat"
    by (simp add: responses_ok_def example_response_def)
  have 2: "\<forall>k \<in> {1, 2, 3}. status_code (responses_not_found k) = 429 \<longrightarrow>
             Retry_After (responses_not_found k) \<noteq> Some NoFloat"
    by (simp add: responses_not_found_def example_response_def)
  have 3: "\<forall>k \<in> {1, 2, 3}. status_code (responses_hint k) = 429 \<longrightarrow>
             Retry_After (responses_hint k) \<noteq> Some NoFloat"
    by (simp add: responses_hint_def example_response_def)
  have 4: "\<forall>k \<in> {1, 2, 3}. status_code (responses_throttled k) = 429 \<longrightarrow>
             Retry_After (responses_throttled k) \<noteq> Some NoFloat"
    by (simp add: responses_throttled_def example_response_def)
  from request_retry_contract [OF 1] request_retry_contract [OF 2]
    request_retry_contract [OF 3] request_retry_contract [OF 4]
  show ?thesis
    by (simp add: responses_ok_def responses_not_found_def responses_hint_def
        responses_throttled_def example_response_def)
qed

text \<open>
  When the first response is a throttling response whose \<^verbatim>\<open>Retry-After\<close> value is not a
  number, the conversion raises and the call ends without a wait and without a retry.
\<close>

lemma request_non_numeric_hint:
  assumes "status_code (responses 1) = 429" and "Retry_After (responses 1) = Some NoFloat"
  shows "HetznerCloudClient_request responses = ([], Inl ValueError)"
    and "HetznerRobotClient_request responses = ([], Inl ValueError)"
  unfolding HetznerCloudClient_request_def HetznerRobotClient_request_def attempts_upt
  using assms by simp_all

text \<open>
  Claim C9. The claim is for every call: after a throttling response the client waits, the
  hint of the server when there is one, and tries again, and a call that fails ends with the
  typed error of the client. \<^verbatim>\<open>_request\<close> reads the hint with
  \<^verbatim>\<open>float(response.headers.get("Retry-After", str(backoff)))\<close>, which covers only the
  form of the header that is a number of seconds. The header has a second form, an HTTP date
  (\<^verbatim>\<open>Retry-After: Wed, 21 Oct 2015 07:28:00 GMT\<close>). At a first response with status 429
  and such a header, followed by a response with status 200 and a JSON body, the call of
  either client ends with \<^verbatim>\<open>ValueError\<close>: it waits for nothing, it does not try again,
  although the second attempt would have returned the body, and the exception is not the
  typed error of the client.
\<close>

theorem request_date_hint_raises:
  "status_code (responses_date_hint 1) = 429 \<and>
   Retry_After (responses_date_hint 1) = Some NoFloat \<and>
   status_code (responses_date_hint 2) = 200 \<and>
   json (responses_date_hint 2) = Some () \<and>
   HetznerCloudClient_request responses_date_hint = ([], Inl ValueError) \<and>
   HetznerRobotClient_request responses_date_hint = ([], Inl ValueError)"
  unfolding HetznerCloudClient_request_def HetznerRobotClient_request_def attempts_upt
  by (simp add: INITIAL_BACKOFF_S_def responses_date_hint_def example_response_def)

section \<open>Agent report ingestion replaces the services of the server\<close>

lemma new_services_rows:
  "new_services sid now rs = Some rows \<Longrightarrow>
   map svc_server_id rows = map (\<lambda>r. sid) rs \<and>
   map svc_name rows = map rep_name rs \<and>
   map svc_port rows = map rep_port rs \<and>
   map svc_status rows = map rep_status rs \<and>
   map (\<lambda>v. Some (service_type v)) rows = map (\<lambda>r. ServiceType_of (rep_service_type r)) rs"
proof (induction rs arbitrary: rows)
  case Nil
  then show ?case by simp
next
  case (Cons r rs)
  then show ?case by (auto split: option.splits)
qed

lemma new_services_server_id:
  "new_services sid now rs = Some rows \<Longrightarrow> v \<in> set rows \<Longrightarrow> svc_server_id v = sid"
proof (induction rs arbitrary: rows)
  case Nil
  then show ?case by simp
next
  case (Cons r rs)
  then show ?case by (auto split: option.splits)
qed

lemma new_services_filter:
  assumes "new_services sid now rs = Some rows"
  shows "filter (\<lambda>v. svc_server_id v = sid) rows = rows"
  using new_services_server_id [OF assms] by simp

lemma fresh_server_id_gt: "s \<in> set ss \<Longrightarrow> srv_id s < fresh_server_id ss"
  by (induction ss) (auto simp: fresh_server_id_def)

lemma fresh_server_id_notin: "fresh_server_id ss \<notin> set (map srv_id ss)"
  using fresh_server_id_gt by fastforce

text \<open>The two successful paths of one ingestion, and that there is no other.\<close>

lemma agent_report_new:
  assumes "secret report = agent_secret settings"
    and "filter (\<lambda>s. ipv4 s = server_ip report) (servers d) = []"
    and "\<not> list_ex (\<lambda>s. hetzner_id s = ''agent-'' @ server_ip report) (servers d)"
    and "new_services (fresh_server_id (servers d)) now (services report) = Some rows"
  shows "running_services (snd (agent_report settings now report d)) =
           filter (\<lambda>v. svc_server_id v \<noteq> fresh_server_id (servers d)) (running_services d) @ rows"
    and "map srv_id (servers (snd (agent_report settings now report d))) =
           map srv_id (servers d) @ [fresh_server_id (servers d)]"
    and "map srv_id (filter (\<lambda>s. ipv4 s = server_ip report)
           (servers (snd (agent_report settings now report d)))) = [fresh_server_id (servers d)]"
    and "fst (agent_report settings now report d) = Inr [(''status'', ''ok'')]"
  using assms by (simp_all add: agent_report_def Let_def)

lemma map_update_ipv4:
  "filter (\<lambda>s. ipv4 s = ip)
     (map (\<lambda>s. if ipv4 s = ip then s\<lparr>last_seen_at := t, name := h, updated_at := t\<rparr> else s) ss) =
   map (\<lambda>s. s\<lparr>last_seen_at := t, name := h, updated_at := t\<rparr>) (filter (\<lambda>s. ipv4 s = ip) ss)"
  by (induction ss) auto

lemma map_update_srv_id:
  "map srv_id
     (map (\<lambda>s. if ipv4 s = ip then s\<lparr>last_seen_at := t, name := h, updated_at := t\<rparr> else s) ss) =
   map srv_id ss"
  by (induction ss) auto

lemma agent_report_update:
  assumes "secret report = agent_secret settings"
    and "filter (\<lambda>s. ipv4 s = server_ip report) (servers d) = [srv]"
    and "new_services (srv_id srv) now (services report) = Some rows"
  shows "running_services (snd (agent_report settings now report d)) =
           filter (\<lambda>v. svc_server_id v \<noteq> srv_id srv) (running_services d) @ rows"
    and "map srv_id (servers (snd (agent_report settings now report d))) = map srv_id (servers d)"
    and "map srv_id (filter (\<lambda>s. ipv4 s = server_ip report)
           (servers (snd (agent_report settings now report d)))) = [srv_id srv]"
    and "fst (agent_report settings now report d) = Inr [(''status'', ''ok'')]"
  using assms by (simp_all add: agent_report_def Let_def map_update_ipv4 map_update_srv_id)

lemma agent_report_fails:
  "secret report \<noteq> agent_secret settings \<Longrightarrow> \<exists>e. fst (agent_report settings now report d) = Inl e"
  "filter (\<lambda>s. ipv4 s = server_ip report) (servers d) = [] \<Longrightarrow>
   list_ex (\<lambda>s. hetzner_id s = ''agent-'' @ server_ip report) (servers d) \<Longrightarrow>
   \<exists>e. fst (agent_report settings now report d) = Inl e"
  "filter (\<lambda>s. ipv4 s = server_ip report) (servers d) = [] \<Longrightarrow>
   new_services (fresh_server_id (servers d)) now (services report) = None \<Longrightarrow>
   \<exists>e. fst (agent_report settings now report d) = Inl e"
  "filter (\<lambda>s. ipv4 s = server_ip report) (servers d) = [srv] \<Longrightarrow>
   new_services (srv_id srv) now (services report) = None \<Longrightarrow>
   \<exists>e. fst (agent_report settings now report d) = Inl e"
  "filter (\<lambda>s. ipv4 s = server_ip report) (servers d) = s1 # s2 # rest \<Longrightarrow>
   \<exists>e. fst (agent_report settings now report d) = Inl e"
  by (simp_all add: agent_report_def Let_def)

text \<open>What one successful ingestion does to the server table and to the service table.\<close>

lemma agent_report_ok:
  assumes "agent_report settings now report d = (Inr ok, d')"
  shows "\<exists>sid rows.
     new_services sid now (services report) = Some rows \<and>
     running_services d' = filter (\<lambda>v. svc_server_id v \<noteq> sid) (running_services d) @ rows \<and>
     map srv_id (filter (\<lambda>s. ipv4 s = server_ip report) (servers d')) = [sid] \<and>
     ((map srv_id (filter (\<lambda>s. ipv4 s = server_ip report) (servers d)) = [sid] \<and>
       map srv_id (servers d') = map srv_id (servers d)) \<or>
      (filter (\<lambda>s. ipv4 s = server_ip report) (servers d) = [] \<and>
       sid = fresh_server_id (servers d) \<and>
       map srv_id (servers d') = map srv_id (servers d) @ [sid]))"
proof -
  from assms have f: "fst (agent_report settings now report d) = Inr ok"
    and s: "snd (agent_report settings now report d) = d'" by simp_all
  from f agent_report_fails(1) [of report settings now d]
  have sec: "secret report = agent_secret settings" by auto
  show ?thesis
  proof (cases "filter (\<lambda>s. ipv4 s = server_ip report) (servers d)")
    case Nil
    with f agent_report_fails(2) [of report d settings now]
    have u: "\<not> list_ex (\<lambda>s. hetzner_id s = ''agent-'' @ server_ip report) (servers d)" by auto
    from Nil f agent_report_fails(3) [of report d now settings]
    obtain rows where r: "new_services (fresh_server_id (servers d)) now (services report) = Some rows"
      by (cases "new_services (fresh_server_id (servers d)) now (services report)") auto
    from agent_report_new [OF sec Nil u r] s r Nil show ?thesis by auto
  next
    case (Cons srv rest)
    show ?thesis
    proof (cases rest)
      case Nil
      with Cons have one: "filter (\<lambda>s. ipv4 s = server_ip report) (servers d) = [srv]" by simp
      from one f agent_report_fails(4) [of report d srv now settings]
      obtain rows where r: "new_services (srv_id srv) now (services report) = Some rows"
        by (cases "new_services (srv_id srv) now (services report)") auto
      from agent_report_update [OF sec one r] s r one show ?thesis by auto
    next
      case (Cons s2 rest2)
      with \<open>filter _ _ = srv # rest\<close> f agent_report_fails(5) [of report d srv s2 rest2 settings now]
      show ?thesis by auto
    qed
  qed
qed


lemma filter_primary_key:
  "distinct (map srv_id ss) \<Longrightarrow> sid \<in> set (map srv_id ss) \<Longrightarrow>
   \<exists>srv. filter (\<lambda>s. srv_id s = sid) ss = [srv]"
proof (induction ss)
  case Nil
  then show ?case by simp
next
  case (Cons s ss)
  show ?case
  proof (cases "srv_id s = sid")
    case True
    have "\<forall>x \<in> set ss. srv_id x \<noteq> sid"
    proof
      fix x
      assume "x \<in> set ss"
      then have "srv_id x \<in> set (map srv_id ss)" by simp
      moreover from Cons.prems(1) True have "sid \<notin> set (map srv_id ss)" by simp
      ultimately show "srv_id x \<noteq> sid" by auto
    qed
    then have "filter (\<lambda>s. srv_id s = sid) ss = []" by (simp add: filter_empty_conv)
    with True show ?thesis by simp
  next
    case False
    with Cons show ?thesis by auto
  qed
qed

lemma get_server_services_primary_key:
  assumes "distinct (map srv_id (servers d))" and "sid \<in> set (map srv_id (servers d))"
  shows "get_server_services sid d =
           Inr (sort_key svc_name (filter (\<lambda>v. svc_server_id v = sid) (running_services d)))"
proof -
  from filter_primary_key [OF assms] obtain srv where
    "filter (\<lambda>s. srv_id s = sid) (servers d) = [srv]" by blast
  then show ?thesis by (simp add: get_server_services_def)
qed

lemma agent_report_services_of:
  assumes "agent_report settings now report d = (Inr ok, d')"
  shows "\<exists>sid rows.
     new_services sid now (services report) = Some rows \<and>
     filter (\<lambda>v. svc_server_id v = sid) (running_services d') = rows \<and>
     map srv_id (filter (\<lambda>s. ipv4 s = server_ip report) (servers d')) = [sid] \<and>
     (map srv_id (filter (\<lambda>s. ipv4 s = server_ip report) (servers d)) = [] \<or>
      map srv_id (filter (\<lambda>s. ipv4 s = server_ip report) (servers d)) = [sid]) \<and>
     (distinct (map srv_id (servers d)) \<longrightarrow> distinct (map srv_id (servers d')))"
proof -
  from agent_report_ok [OF assms] obtain sid rows where all:
    "new_services sid now (services report) = Some rows \<and>
     running_services d' = filter (\<lambda>v. svc_server_id v \<noteq> sid) (running_services d) @ rows \<and>
     map srv_id (filter (\<lambda>s. ipv4 s = server_ip report) (servers d')) = [sid] \<and>
     ((map srv_id (filter (\<lambda>s. ipv4 s = server_ip report) (servers d)) = [sid] \<and>
       map srv_id (servers d') = map srv_id (servers d)) \<or>
      (filter (\<lambda>s. ipv4 s = server_ip report) (servers d) = [] \<and>
       sid = fresh_server_id (servers d) \<and>
       map srv_id (servers d') = map srv_id (servers d) @ [sid]))"
    by (elim exE)
  then have
    n: "new_services sid now (services report) = Some rows" and
    r: "running_services d' = filter (\<lambda>v. svc_server_id v \<noteq> sid) (running_services d) @ rows" and
    i: "map srv_id (filter (\<lambda>s. ipv4 s = server_ip report) (servers d')) = [sid]" and
    c: "(map srv_id (filter (\<lambda>s. ipv4 s = server_ip report) (servers d)) = [sid] \<and>
         map srv_id (servers d') = map srv_id (servers d)) \<or>
        (filter (\<lambda>s. ipv4 s = server_ip report) (servers d) = [] \<and>
         sid = fresh_server_id (servers d) \<and>
         map srv_id (servers d') = map srv_id (servers d) @ [sid])"
    by simp_all
  have "filter (\<lambda>v. svc_server_id v = sid) (filter (\<lambda>v. svc_server_id v \<noteq> sid) xs) = []" for xs
    by (induction xs) auto
  with r new_services_filter [OF n]
  have f: "filter (\<lambda>v. svc_server_id v = sid) (running_services d') = rows" by simp
  from c have k: "distinct (map srv_id (servers d)) \<longrightarrow> distinct (map srv_id (servers d'))"
    using fresh_server_id_notin [of "servers d"] by auto
  from c have e: "map srv_id (filter (\<lambda>s. ipv4 s = server_ip report) (servers d)) = [] \<or>
      map srv_id (filter (\<lambda>s. ipv4 s = server_ip report) (servers d)) = [sid]" by auto
  from n f i e k show ?thesis by (intro exI [of _ sid] exI [of _ rows] conjI)
qed

lemma ServiceType_of_Some:
  "ServiceType_of v = Some ty \<Longrightarrow>
   (v = ''docker'' \<and> ty = docker) \<or> (v = ''systemd'' \<and> ty = systemd) \<or>
   (v = ''port'' \<and> ty = port)"
  by (auto simp: ServiceType_of_def split: if_splits)

lemma new_services_stored:
  "new_services sid now rs = Some rows \<Longrightarrow>
   list_all2 (\<lambda>v r. \<exists>ty.
       ((rep_service_type r = ''docker'' \<and> ty = docker) \<or>
        (rep_service_type r = ''systemd'' \<and> ty = systemd) \<or>
        (rep_service_type r = ''port'' \<and> ty = port)) \<and>
       v = \<lparr>svc_server_id = sid, service_type = ty, svc_name = rep_name r,
            svc_port = rep_port r, svc_status = rep_status r,
            svc_cpu_percent = rep_svc_cpu_percent r, svc_memory_mb = rep_memory_mb r,
            discovered_at = now, svc_last_seen_at = now\<rparr>) rows rs"
proof (induction rs arbitrary: rows)
  case Nil
  then show ?case by simp
next
  case (Cons r rs)
  from Cons.prems obtain ty rest where
    ty: "ServiceType_of (rep_service_type r) = Some ty" and
    rest: "new_services sid now rs = Some rest" and
    rows: "rows = \<lparr>svc_server_id = sid, service_type = ty, svc_name = rep_name r,
            svc_port = rep_port r, svc_status = rep_status r,
            svc_cpu_percent = rep_svc_cpu_percent r, svc_memory_mb = rep_memory_mb r,
            discovered_at = now, svc_last_seen_at = now\<rparr> # rest"
    by (auto split: option.splits)
  from ServiceType_of_Some [OF ty] Cons.IH [OF rest] show ?case
    unfolding rows by (simp only: list_all2_Cons) blast
qed

text \<open>
  Claim C7. Let the server keys be distinct, and let two reports for the same address be
  ingested one after the other, at the times \<open>t1\<close> and \<open>t2\<close>. Then there is one server with
  that address; after each ingestion its stored service rows are exactly one row for each
  entry of the service list of the report just ingested, in the order of the report, and
  each row carries the key of the server, the name, port, status, CPU and memory figures of
  its entry, the service type that the entry names, and the time of the ingestion as the
  time of discovery and of the last sighting; the service query returns exactly these rows,
  ordered by name. In particular, after the second ingestion the query returns the services
  of the second report only: when the two reports have no service name in common, no
  returned row bears a name of the first report.
\<close>

theorem agent_report_replaces_services:
  assumes "distinct (map srv_id (servers d))"
    and "agent_report settings t1 report1 d = (Inr ok1, d1)"
    and "agent_report settings t2 report2 d1 = (Inr ok2, d2)"
    and "server_ip report2 = server_ip report1"
  defines "stored \<equiv> \<lambda>sid now v r. \<exists>ty.
       ((rep_service_type r = ''docker'' \<and> ty = docker) \<or>
        (rep_service_type r = ''systemd'' \<and> ty = systemd) \<or>
        (rep_service_type r = ''port'' \<and> ty = port)) \<and>
       v = \<lparr>svc_server_id = sid, service_type = ty, svc_name = rep_name r,
            svc_port = rep_port r, svc_status = rep_status r,
            svc_cpu_percent = rep_svc_cpu_percent r, svc_memory_mb = rep_memory_mb r,
            discovered_at = now, svc_last_seen_at = now\<rparr>"
  shows "\<exists>sid rows1 rows2.
     map srv_id (filter (\<lambda>s. ipv4 s = server_ip report1) (servers d1)) = [sid] \<and>
     map srv_id (filter (\<lambda>s. ipv4 s = server_ip report1) (servers d2)) = [sid] \<and>
     list_all2 (stored sid t1) rows1 (services report1) \<and>
     list_all2 (stored sid t2) rows2 (services report2) \<and>
     map svc_name rows1 = map rep_name (services report1) \<and>
     map svc_name rows2 = map rep_name (services report2) \<and>
     filter (\<lambda>v. svc_server_id v = sid) (running_services d1) = rows1 \<and>
     filter (\<lambda>v. svc_server_id v = sid) (running_services d2) = rows2 \<and>
     get_server_services sid d1 = Inr (sort_key svc_name rows1) \<and>
     get_server_services sid d2 = Inr (sort_key svc_name rows2) \<and>
     mset (sort_key svc_name rows2) = mset rows2 \<and>
     (set (map rep_name (services report1)) \<inter> set (map rep_name (services report2)) = {} \<longrightarrow>
      (\<forall>v \<in> set (sort_key svc_name rows2). svc_name v \<notin> set (map rep_name (services report1))))"
proof -
  from agent_report_services_of [OF assms(2)] obtain sid rows1 where 1:
    "new_services sid t1 (services report1) = Some rows1"
    "filter (\<lambda>v. svc_server_id v = sid) (running_services d1) = rows1"
    "map srv_id (filter (\<lambda>s. ipv4 s = server_ip report1) (servers d1)) = [sid]"
    "distinct (map srv_id (servers d)) \<longrightarrow> distinct (map srv_id (servers d1))"
    by (elim exE conjE)
  from agent_report_services_of [OF assms(3)] obtain sid2 rows2 where 2:
    "new_services sid2 t2 (services report2) = Some rows2"
    "filter (\<lambda>v. svc_server_id v = sid2) (running_services d2) = rows2"
    "map srv_id (filter (\<lambda>s. ipv4 s = server_ip report2) (servers d2)) = [sid2]"
    "map srv_id (filter (\<lambda>s. ipv4 s = server_ip report2) (servers d1)) = [] \<or>
     map srv_id (filter (\<lambda>s. ipv4 s = server_ip report2) (servers d1)) = [sid2]"
    "distinct (map srv_id (servers d1)) \<longrightarrow> distinct (map srv_id (servers d2))"
    by (elim exE conjE)
  from 1(3) 2(4) assms(4) have same: "sid2 = sid" by simp
  from 1(4) assms(1) have k1: "distinct (map srv_id (servers d1))" by simp
  with 2(5) have k2: "distinct (map srv_id (servers d2))" by simp
  have in_filter: "map srv_id (filter P ss) = [i] \<Longrightarrow> i \<in> set (map srv_id ss)"
    for P ss and i :: int
  proof -
    assume "map srv_id (filter P ss) = [i]"
    then have "i \<in> set (map srv_id (filter P ss))" by simp
    then show ?thesis by auto
  qed
  from in_filter [OF 1(3)] have m1: "sid \<in> set (map srv_id (servers d1))" .
  from in_filter [OF 2(3)] same have m2: "sid \<in> set (map srv_id (servers d2))" by simp
  have g1: "get_server_services sid d1 = Inr (sort_key svc_name rows1)"
    using get_server_services_primary_key [OF k1 m1] 1(2) by simp
  have g2: "get_server_services sid d2 = Inr (sort_key svc_name rows2)"
    using get_server_services_primary_key [OF k2 m2] 2(2) same by simp
  have n1: "map svc_name rows1 = map rep_name (services report1)"
    using new_services_rows [OF 1(1)] by simp
  have n2: "map svc_name rows2 = map rep_name (services report2)"
    using new_services_rows [OF 2(1)] by simp
  have u: "set (map rep_name (services report1)) \<inter> set (map rep_name (services report2)) = {} \<longrightarrow>
      (\<forall>v \<in> set (sort_key svc_name rows2). svc_name v \<notin> set (map rep_name (services report1)))"
  proof (intro impI ballI)
    fix v
    assume disj: "set (map rep_name (services report1)) \<inter> set (map rep_name (services report2)) = {}"
      and "v \<in> set (sort_key svc_name rows2)"
    then have "v \<in> set rows2" by simp
    then have "svc_name v \<in> set (map svc_name rows2)" by simp
    with n2 have "svc_name v \<in> set (map rep_name (services report2))" by simp
    with disj show "svc_name v \<notin> set (map rep_name (services report1))" by blast
  qed
  have ms: "mset (sort_key svc_name rows2) = mset rows2" by simp
  from 1(3) 2(3) assms(4) same have i2:
    "map srv_id (filter (\<lambda>s. ipv4 s = server_ip report1) (servers d2)) = [sid]" by simp
  from 2(1) 2(2) same have r2: "new_services sid t2 (services report2) = Some rows2"
    "filter (\<lambda>v. svc_server_id v = sid) (running_services d2) = rows2" by simp_all
  have l1: "list_all2 (stored sid t1) rows1 (services report1)"
    unfolding stored_def by (rule new_services_stored [OF 1(1)])
  have l2: "list_all2 (stored sid t2) rows2 (services report2)"
    unfolding stored_def by (rule new_services_stored [OF r2(1)])
  from 1(3) i2 l1 l2 n1 n2 1(2) r2(2) g1 g2 ms u show ?thesis
    by (intro exI [of _ sid] exI [of _ rows1] exI [of _ rows2] conjI)
qed

theorem agent_report_replaces_services_witness:
  "distinct (map srv_id (servers example_db)) \<and>
   fst (agent_report example_settings 10 example_report_a example_db) = Inr [(''status'', ''ok'')] \<and>
   fst (agent_report example_settings 20 example_report_b
          (snd (agent_report example_settings 10 example_report_a example_db))) =
     Inr [(''status'', ''ok'')] \<and>
   server_ip example_report_b = server_ip example_report_a \<and>
   get_server_services 2 (snd (agent_report example_settings 10 example_report_a example_db)) =
     Inr [\<lparr>svc_server_id = 2, service_type = systemd, svc_name = ''nginx'',
           svc_port = Some 80, svc_status = ''running'', svc_cpu_percent = None,
           svc_memory_mb = None, discovered_at = 10, svc_last_seen_at = 10\<rparr>] \<and>
   get_server_services 2
     (snd (agent_report example_settings 20 example_report_b
            (snd (agent_report example_settings 10 example_report_a example_db)))) =
     Inr [\<lparr>svc_server_id = 2, service_type = systemd, svc_name = ''cron'',
           svc_port = None, svc_status = ''running'', svc_cpu_percent = None,
           svc_memory_mb = None, discovered_at = 20, svc_last_seen_at = 20\<rparr>,
          \<lparr>svc_server_id = 2, service_type = docker, svc_name = ''postgres'',
           svc_port = Some 5432, svc_status = ''running'', svc_cpu_percent = Some 1.5,
           svc_memory_mb = Some 256, discovered_at = 20, svc_last_seen_at = 20\<rparr>]"
proof -
  define d1 where "d1 = snd (agent_report example_settings 10 example_report_a example_db)"
  define d2 where "d2 = snd (agent_report example_settings 20 example_report_b d1)"
  have k: "distinct (map srv_id (servers example_db))"
    by (simp add: example_db_def)
  have f1: "fst (agent_report example_settings 10 example_report_a example_db) =
              Inr [(''status'', ''ok'')]"
    by (simp add: agent_report_def example_settings_def example_report_a_def example_report_def
        example_db_def example_server_def ServiceType_of_def Let_def)
  have s1: "servers d1 = [example_server,
      \<lparr>srv_id = 2, hetzner_id = ''agent-10.0.0.2'', name = ''db-1'', server_type = ''dedicated'',
       source = dedicated, status = ''running'', datacenter = [], ipv4 = ''10.0.0.2'',
       cores = 0, memory_gb = 0, disk_gb = 0, monthly_cost_eur = 0, labels = None,
       project_name = None, created_at = 10, last_seen_at = 10, updated_at = 10\<rparr>]"
    unfolding d1_def
    by (simp add: agent_report_def example_settings_def example_report_a_def example_report_def
        example_db_def example_server_def ServiceType_of_def fresh_server_id_def Let_def)
  have f2: "fst (agent_report example_settings 20 example_report_b d1) = Inr [(''status'', ''ok'')]"
    by (simp add: agent_report_def s1 example_settings_def example_report_b_def
        example_report_def example_server_def ServiceType_of_def Let_def)
  have ip: "server_ip example_report_b = server_ip example_report_a"
    by (simp add: example_report_a_def example_report_b_def example_report_def)
  have r1: "agent_report example_settings 10 example_report_a example_db =
              (Inr [(''status'', ''ok'')], d1)"
    using f1 by (simp add: d1_def prod_eq_iff)
  have r2: "agent_report example_settings 20 example_report_b d1 = (Inr [(''status'', ''ok'')], d2)"
    using f2 by (simp add: d2_def prod_eq_iff)
  from agent_report_replaces_services [OF k r1 r2 ip] obtain sid rows1 rows2 where
    a: "map srv_id (filter (\<lambda>s. ipv4 s = server_ip example_report_a) (servers d1)) = [sid]"
       "list_all2 (\<lambda>v r. \<exists>ty.
           ((rep_service_type r = ''docker'' \<and> ty = docker) \<or>
            (rep_service_type r = ''systemd'' \<and> ty = systemd) \<or>
            (rep_service_type r = ''port'' \<and> ty = port)) \<and>
           v = \<lparr>svc_server_id = sid, service_type = ty, svc_name = rep_name r,
                svc_port = rep_port r, svc_status = rep_status r,
                svc_cpu_percent = rep_svc_cpu_percent r, svc_memory_mb = rep_memory_mb r,
                discovered_at = 10, svc_last_seen_at = 10\<rparr>) rows1 (services example_report_a)"
       "list_all2 (\<lambda>v r. \<exists>ty.
           ((rep_service_type r = ''docker'' \<and> ty = docker) \<or>
            (rep_service_type r = ''systemd'' \<and> ty = systemd) \<or>
            (rep_service_type r = ''port'' \<and> ty = port)) \<and>
           v = \<lparr>svc_server_id = sid, service_type = ty, svc_name = rep_name r,
                svc_port = rep_port r, svc_status = rep_status r,
                svc_cpu_percent = rep_svc_cpu_percent r, svc_memory_mb = rep_memory_mb r,
                discovered_at = 20, svc_last_seen_at = 20\<rparr>) rows2 (services example_report_b)"
       "get_server_services sid d1 = Inr (sort_key svc_name rows1)"
       "get_server_services sid d2 = Inr (sort_key svc_name rows2)"
    by (elim exE conjE)
  from a(1) have sid: "sid = 2"
    by (simp add: s1 example_report_a_def example_report_def example_server_def)
  from a(2) have rows1: "rows1 =
     [\<lparr>svc_server_id = 2, service_type = systemd, svc_name = ''nginx'',
       svc_port = Some 80, svc_status = ''running'', svc_cpu_percent = None,
       svc_memory_mb = None, discovered_at = 10, svc_last_seen_at = 10\<rparr>]"
    by (simp add: sid example_report_a_def example_report_def list_all2_Cons2)
  from a(3) have rows2: "rows2 =
     [\<lparr>svc_server_id = 2, service_type = docker, svc_name = ''postgres'',
       svc_port = Some 5432, svc_status = ''running'', svc_cpu_percent = Some 1.5,
       svc_memory_mb = Some 256, discovered_at = 20, svc_last_seen_at = 20\<rparr>,
      \<lparr>svc_server_id = 2, service_type = systemd, svc_name = ''cron'',
       svc_port = None, svc_status = ''running'', svc_cpu_percent = None,
       svc_memory_mb = None, discovered_at = 20, svc_last_seen_at = 20\<rparr>]"
    by (simp add: sid example_report_b_def example_report_def list_all2_Cons2)
  have g1: "get_server_services 2 d1 =
     Inr [\<lparr>svc_server_id = 2, service_type = systemd, svc_name = ''nginx'',
           svc_port = Some 80, svc_status = ''running'', svc_cpu_percent = None,
           svc_memory_mb = None, discovered_at = 10, svc_last_seen_at = 10\<rparr>]"
    using a(4) unfolding sid rows1 by simp
  have g2: "get_server_services 2 d2 =
     Inr [\<lparr>svc_server_id = 2, service_type = systemd, svc_name = ''cron'',
           svc_port = None, svc_status = ''running'', svc_cpu_percent = None,
           svc_memory_mb = None, discovered_at = 20, svc_last_seen_at = 20\<rparr>,
          \<lparr>svc_server_id = 2, service_type = docker, svc_name = ''postgres'',
           svc_port = Some 5432, svc_status = ''running'', svc_cpu_percent = Some 1.5,
           svc_memory_mb = Some 256, discovered_at = 20, svc_last_seen_at = 20\<rparr>]"
    using a(5) unfolding sid rows2 by (simp add: less_eq_char_def less_char_def)
  from k f1 f2 ip g1 g2 show ?thesis
    unfolding d2_def d1_def by (intro conjI)
qed

section \<open>Properties of the recommendation rules\<close>

lemma collect_set: "y \<in> set (collect f xs) \<Longrightarrow> \<exists>x \<in> set xs. f x = Some y"
  by (induction xs) (auto split: option.splits)

lemma collect_map: "(\<And>x. g x = map_option h (f x)) \<Longrightarrow> collect g xs = map h (collect f xs)"
  by (induction xs) (auto split: option.splits)

lemma idle_candidate_fields:
  assumes "idle_candidate now server_by_id item = Some r"
  shows "rec_status r = pending" and "confidence r = high" and "rec_created_at r = now"
    and "monthly_savings_eur r = current_total_cost_eur r - projected_cost_eur r"
  using assms
  by (auto simp: idle_candidate_def Let_def split: if_splits option.splits list.splits)

lemma rightsizing_candidate_fields:
  assumes "rightsizing_candidate now server_by_id item = Some r"
  shows "rec_status r = pending" and "confidence r = medium" and "rec_created_at r = now"
    and "0 \<le> monthly_savings_eur r"
  using assms
  by (auto simp: rightsizing_candidate_def Let_def py_round_nonneg
      split: if_splits option.splits)

lemma find_staging_consolidation_fields:
  assumes "r \<in> set (find_staging_consolidation now server_by_id analysis_by_id)"
  shows "rec_status r = pending" and "confidence r = medium" and "rec_created_at r = now"
    and "0 \<le> monthly_savings_eur r"
  using assms
  by (auto simp: find_staging_consolidation_def Let_def py_round_nonneg split: if_splits)

lemma idle_candidate_clock:
  "idle_candidate t2 server_by_id item =
     map_option (\<lambda>r. r\<lparr>rec_created_at := t2\<rparr>) (idle_candidate t1 server_by_id item)"
  by (auto simp: idle_candidate_def Let_def split: if_splits option.splits list.splits)

lemma rightsizing_candidate_clock:
  "rightsizing_candidate t2 server_by_id item =
     map_option (\<lambda>r. r\<lparr>rec_created_at := t2\<rparr>) (rightsizing_candidate t1 server_by_id item)"
  by (auto simp: rightsizing_candidate_def Let_def split: if_splits option.splits)

lemma find_staging_consolidation_clock:
  "find_staging_consolidation t2 server_by_id analysis_by_id =
     map (\<lambda>r. r\<lparr>rec_created_at := t2\<rparr>)
       (find_staging_consolidation t1 server_by_id analysis_by_id)"
  by (simp add: find_staging_consolidation_def Let_def)

lemma generate_recommendations_eq:
  "generate_recommendations now d =
     (new_recommendations now (servers d) (analyze_all_servers now d),
      d\<lparr>consolidation_recommendations :=
          filter (\<lambda>r. rec_status r \<noteq> pending) (consolidation_recommendations d) @
          new_recommendations now (servers d) (analyze_all_servers now d)\<rparr>)"
  by (simp add: generate_recommendations_def new_recommendations_def Let_def)

lemma new_recommendations_pending:
  assumes "r \<in> set (new_recommendations now srvs analyses)"
  shows "rec_status r = pending"
  using assms idle_candidate_fields(1) rightsizing_candidate_fields(1)
    find_staging_consolidation_fields(1)
  by (auto simp: new_recommendations_def Let_def find_idle_servers_def
      find_rightsizing_candidates_def dest!: collect_set)

lemma new_recommendations_clock:
  "new_recommendations t2 srvs analyses =
     map (\<lambda>r. r\<lparr>rec_created_at := t2\<rparr>) (new_recommendations t1 srvs analyses)"
  unfolding new_recommendations_def Let_def find_idle_servers_def find_rightsizing_candidates_def
    map_append
  using collect_map [of "idle_candidate t2 _" "\<lambda>r. r\<lparr>rec_created_at := t2\<rparr>" "idle_candidate t1 _",
      OF idle_candidate_clock]
    collect_map [of "rightsizing_candidate t2 _" "\<lambda>r. r\<lparr>rec_created_at := t2\<rparr>"
      "rightsizing_candidate t1 _", OF rightsizing_candidate_clock]
    find_staging_consolidation_clock [of t2 _ _ t1]
  by simp

lemma analyze_all_servers_recommendations:
  "analyze_all_servers now (d\<lparr>consolidation_recommendations := rs\<rparr>) = analyze_all_servers now d"
  by (simp add: analyze_all_servers_def analyze_server_def)

section \<open>Regeneration of the recommendations\<close>

text \<open>
  Claim C2. One run of \<^verbatim>\<open>generate_recommendations\<close> leaves in the table exactly the
  records that were not pending, unchanged and in their order, followed by the records it
  creates, which are all pending; it changes no other table. A second run right after the
  first gives the result of a single run at the time of the second: the records of the
  first run are deleted again, the accepted and dismissed records stay as they were. When
  the analyses of the servers are the same at both runs, the pending records after the
  second run are the pending records after the first, with the creation time of the second
  run.
\<close>

theorem generate_recommendations_idempotent:
  fixes d :: db and t1 t2 :: datetime
  defines "d1 \<equiv> snd (generate_recommendations t1 d)"
  defines "d2 \<equiv> snd (generate_recommendations t2 (snd (generate_recommendations t1 d)))"
  defines "pending_of \<equiv> \<lambda>x. filter (\<lambda>r. rec_status r = pending) (consolidation_recommendations x)"
  defines "decided_of \<equiv> \<lambda>x. filter (\<lambda>r. rec_status r \<noteq> pending) (consolidation_recommendations x)"
  shows "consolidation_recommendations d1 = decided_of d @ fst (generate_recommendations t1 d) \<and>
     decided_of d1 = decided_of d \<and>
     pending_of d1 = fst (generate_recommendations t1 d) \<and>
     servers d1 = servers d \<and> metric_snapshots d1 = metric_snapshots d \<and>
     running_services d1 = running_services d \<and>
     generate_recommendations t2 d1 = generate_recommendations t2 d \<and>
     decided_of d2 = decided_of d \<and>
     pending_of d2 = fst (generate_recommendations t2 d) \<and>
     (analyze_all_servers t2 d = analyze_all_servers t1 d \<longrightarrow>
        pending_of d2 = map (\<lambda>r. r\<lparr>rec_created_at := t2\<rparr>) (pending_of d1))"
proof -
  define new1 where "new1 = new_recommendations t1 (servers d) (analyze_all_servers t1 d)"
  define new2 where "new2 = new_recommendations t2 (servers d) (analyze_all_servers t2 d)"
  define kept where "kept = filter (\<lambda>r. rec_status r \<noteq> pending) (consolidation_recommendations d)"
  have p1: "filter (\<lambda>r. rec_status r \<noteq> pending) new1 = []"
    "filter (\<lambda>r. rec_status r = pending) new1 = new1"
    using new_recommendations_pending by (auto simp: new1_def filter_empty_conv filter_id_conv)
  have p2: "filter (\<lambda>r. rec_status r \<noteq> pending) new2 = []"
    "filter (\<lambda>r. rec_status r = pending) new2 = new2"
    using new_recommendations_pending by (auto simp: new2_def filter_empty_conv filter_id_conv)
  have k: "filter (\<lambda>r. rec_status r \<noteq> pending) kept = kept"
    "filter (\<lambda>r. rec_status r = pending) kept = []"
    by (auto simp: kept_def filter_empty_conv)
  have g1: "generate_recommendations t1 d = (new1, d\<lparr>consolidation_recommendations := kept @ new1\<rparr>)"
    by (simp add: generate_recommendations_eq new1_def kept_def)
  then have e1: "d1 = d\<lparr>consolidation_recommendations := kept @ new1\<rparr>"
    by (simp add: d1_def)
  have g2: "generate_recommendations t2 d = (new2, d\<lparr>consolidation_recommendations := kept @ new2\<rparr>)"
    by (simp add: generate_recommendations_eq new2_def kept_def)
  have g21: "generate_recommendations t2 d1 = (new2, d\<lparr>consolidation_recommendations := kept @ new2\<rparr>)"
    unfolding e1
    by (simp add: generate_recommendations_eq analyze_all_servers_recommendations
        new2_def [symmetric] p1 k)
  then have e2: "d2 = d\<lparr>consolidation_recommendations := kept @ new2\<rparr>"
    by (simp add: d2_def d1_def)
  have c: "new2 = map (\<lambda>r. r\<lparr>rec_created_at := t2\<rparr>) new1"
    if "analyze_all_servers t2 d = analyze_all_servers t1 d"
    using new_recommendations_clock [of t2 "servers d" "analyze_all_servers t1 d" t1] that
    by (simp add: new1_def new2_def)
  have 1: "consolidation_recommendations d1 = decided_of d @ fst (generate_recommendations t1 d)"
    by (simp add: e1 g1 decided_of_def kept_def)
  have 2: "decided_of d1 = decided_of d"
    by (simp add: e1 decided_of_def p1 k) (simp add: kept_def)
  have 3: "pending_of d1 = fst (generate_recommendations t1 d)"
    by (simp add: e1 g1 pending_of_def p1 k)
  have 4: "servers d1 = servers d" "metric_snapshots d1 = metric_snapshots d"
    "running_services d1 = running_services d"
    by (simp_all add: e1)
  have 5: "generate_recommendations t2 d1 = generate_recommendations t2 d"
    by (simp only: g21 g2)
  have 6: "decided_of d2 = decided_of d"
    by (simp add: e2 decided_of_def p2 k) (simp add: kept_def)
  have 7: "pending_of d2 = fst (generate_recommendations t2 d)"
    by (simp add: e2 g2 pending_of_def p2 k)
  have 8: "analyze_all_servers t2 d = analyze_all_servers t1 d \<longrightarrow>
        pending_of d2 = map (\<lambda>r. r\<lparr>rec_created_at := t2\<rparr>) (pending_of d1)"
  proof
    assume "analyze_all_servers t2 d = analyze_all_servers t1 d"
    from c [OF this] 3 7 g1 g2
    show "pending_of d2 = map (\<lambda>r. r\<lparr>rec_created_at := t2\<rparr>) (pending_of d1)" by simp
  qed
  from 1 2 3 4 5 6 7 8 show ?thesis by (intro conjI)
qed

lemmas rule_eval =
  generate_recommendations_def analyze_all_servers_def analyze_server_def sql_avg_def sql_max_def
  dict_of_def find_idle_servers_def idle_candidate_def find_staging_consolidation_def
  is_staging_server_def STAGING_PATTERN_search_def find_rightsizing_candidates_def
  rightsizing_candidate_def lower_def lower_char_def DOWNGRADE_MAP_def PRICE_MAP_def dict_get_def
  Let_def

theorem generate_recommendations_idempotent_witness:
  "analyze_all_servers 200 example_idle_db = analyze_all_servers 100 example_idle_db \<and>
   consolidation_recommendations example_idle_db = [example_stale, example_accepted] \<and>
   filter (\<lambda>r. rec_status r \<noteq> pending)
     (consolidation_recommendations
        (snd (generate_recommendations 200 (snd (generate_recommendations 100 example_idle_db))))) =
     [example_accepted] \<and>
   map (\<lambda>r. (target_server_type r, monthly_savings_eur r, rec_created_at r))
     (filter (\<lambda>r. rec_status r = pending)
        (consolidation_recommendations (snd (generate_recommendations 100 example_idle_db)))) =
     [(''cx31'', 7, 100)] \<and>
   map (\<lambda>r. (target_server_type r, monthly_savings_eur r, rec_created_at r))
     (filter (\<lambda>r. rec_status r = pending)
        (consolidation_recommendations
           (snd (generate_recommendations 200
              (snd (generate_recommendations 100 example_idle_db)))))) =
     [(''cx31'', 7, 200)]"
proof -
  have a: "analyze_all_servers 200 example_idle_db = analyze_all_servers 100 example_idle_db"
    by (simp add: analyze_all_servers_def analyze_server_def example_idle_db_def sql_avg_def
        sql_max_def)
  have r: "consolidation_recommendations example_idle_db = [example_stale, example_accepted]"
    by (simp add: example_idle_db_def)
  have k: "filter (\<lambda>r. rec_status r \<noteq> pending) (consolidation_recommendations example_idle_db) =
             [example_accepted]"
    by (simp add: r example_stale_def example_accepted_def)
  have n: "map (\<lambda>r. (target_server_type r, monthly_savings_eur r, rec_created_at r))
             (fst (generate_recommendations 100 example_idle_db)) = [(''cx31'', 7, 100)]"
    by (simp add: rule_eval example_idle_db_def example_server_def)
  have m: "map (\<lambda>r. (target_server_type r, monthly_savings_eur r, rec_created_at r))
             (map (\<lambda>r. r\<lparr>rec_created_at := 200\<rparr>) xs) =
           map (\<lambda>r. (target_server_type r, monthly_savings_eur r, 200)) xs"
    for xs :: "ConsolidationRecommendation list"
    by simp
  from n have n': "map (\<lambda>r. (target_server_type r, monthly_savings_eur r, 200 :: int))
             (fst (generate_recommendations 100 example_idle_db)) = [(''cx31'', 7, 200)]"
    by (cases "fst (generate_recommendations 100 example_idle_db)") auto
  note T = generate_recommendations_idempotent [of 100 example_idle_db 200]
  note p1 = T [THEN conjunct2, THEN conjunct2, THEN conjunct1]
  note d2 = T [THEN conjunct2, THEN conjunct2, THEN conjunct2, THEN conjunct2, THEN conjunct2, THEN conjunct2, THEN conjunct2, THEN conjunct1]
  note p2 = T [THEN conjunct2, THEN conjunct2, THEN conjunct2, THEN conjunct2, THEN conjunct2, THEN conjunct2, THEN conjunct2, THEN conjunct2, THEN conjunct2, THEN mp, OF a]
  have 1: "filter (\<lambda>r. rec_status r \<noteq> pending)
     (consolidation_recommendations
        (snd (generate_recommendations 200 (snd (generate_recommendations 100 example_idle_db))))) =
     [example_accepted]"
    by (simp only: d2 k)
  have 2: "map (\<lambda>r. (target_server_type r, monthly_savings_eur r, rec_created_at r))
     (filter (\<lambda>r. rec_status r = pending)
        (consolidation_recommendations (snd (generate_recommendations 100 example_idle_db)))) =
     [(''cx31'', 7, 100)]"
    by (simp only: p1 n)
  have 3: "map (\<lambda>r. (target_server_type r, monthly_savings_eur r, rec_created_at r))
     (filter (\<lambda>r. rec_status r = pending)
        (consolidation_recommendations
           (snd (generate_recommendations 200
              (snd (generate_recommendations 100 example_idle_db)))))) =
     [(''cx31'', 7, 200)]"
    by (simp only: p2 p1 m n')
  from a r 1 2 3 show ?thesis by (intro conjI)
qed

section \<open>The idle rule\<close>

lemma collect_filter_unique:
  assumes "distinct (map fst xs)" and "(k, v) \<in> set xs" and "f (k, v) = Some r" and "P r"
    and "\<And>k' v' r'. k' \<noteq> k \<Longrightarrow> f (k', v') = Some r' \<Longrightarrow> \<not> P r'"
  shows "filter P (collect f xs) = [r]"
  using assms(1,2)
proof (induction xs)
  case Nil
  then show ?case by simp
next
  case (Cons x xs)
  obtain k' v' where x: "x = (k', v')" by (cases x)
  show ?case
  proof (cases "x = (k, v)")
    case True
    with Cons.prems(1) have "\<forall>y \<in> set xs. fst y \<noteq> k" by force
    then have "\<forall>y \<in> set xs. \<forall>r'. f y = Some r' \<longrightarrow> \<not> P r'"
      using assms(5) by (metis prod.collapse)
    then have "filter P (collect f xs) = []"
      by (auto simp: filter_empty_conv dest!: collect_set)
    with True assms(3,4) show ?thesis by simp
  next
    case False
    with Cons.prems(2) have in_xs: "(k, v) \<in> set xs" by simp
    with Cons.prems(1) x have "k' \<noteq> k" by force
    with assms(5) x have "\<And>r'. f x = Some r' \<Longrightarrow> \<not> P r'" by blast
    moreover from Cons.IH Cons.prems(1) in_xs have "filter P (collect f xs) = [r]" by simp
    ultimately show ?thesis by (cases "f x") auto
  qed
qed

lemma idle_candidate_server_ids:
  assumes "idle_candidate now server_by_id (k, a) = Some r"
  shows "\<exists>s. map_of server_by_id k = Some s \<and> server_ids r = [srv_id s]"
  using assms
  by (auto simp: idle_candidate_def Let_def split: if_splits option.splits list.splits)

lemma format_fixed_1_2: "format_fixed 1 2 = ''2.0''"
  by (simp add: format_fixed_def round_half_even_def Let_def str_nat.simps digit_char_def
      zfill_def)

lemma format_fixed_2_7: "format_fixed 2 7 = ''7.00''"
  by (simp add: format_fixed_def round_half_even_def Let_def str_nat.simps digit_char_def
      zfill_def)

lemma idle_candidate_downgrade:
  assumes "map_of server_by_id sid = Some server"
    and "status server = ''running''" and "0 < monthly_cost_eur server"
    and "map_of DOWNGRADE_MAP (lower (server_type server)) = Some (c # cs)"
    and "utilization_tier analysis = ''idle''"
  shows "idle_candidate now server_by_id (sid, analysis) =
     Some \<lparr>group_name = ''Underutilized: '' @ name server,
           server_ids = [srv_id server],
           target_server_type = c # cs,
           current_total_cost_eur = monthly_cost_eur server,
           projected_cost_eur = dict_get PRICE_MAP (c # cs) 0,
           monthly_savings_eur = monthly_cost_eur server - dict_get PRICE_MAP (c # cs) 0,
           rationale =
             ''This server is barely using its resources '' @ em_dash @
             '' averaging just '' @ format_fixed 1 (avg_cpu_30d analysis) @
             ''% CPU over 30 days (peak '' @
             format_fixed 1 (peak_cpu_30d analysis) @
             ''%). Downgrading from '' @ server_type server @ '' to '' @
             (c # cs) @ '' would save EUR '' @
             format_fixed 2 (monthly_cost_eur server - dict_get PRICE_MAP (c # cs) 0) @
             ''/mo. Alternatively, its workloads could be consolidated onto '' @
             ''another server to free up this instance entirely.'',
           confidence = high,
           rec_status = pending,
           rec_created_at = now\<rparr>"
  using assms by (simp add: idle_candidate_def Let_def)

lemma idle_candidate_cx41:
  assumes "map_of server_by_id sid = Some server"
    and "status server = ''running''" and "server_type server = ''cx41''"
    and "monthly_cost_eur server = 17.49"
    and "avg_cpu_30d analysis = 2" and "utilization_tier analysis = classify_utilization 2"
  shows "idle_candidate now server_by_id (sid, analysis) =
     Some \<lparr>group_name = ''Underutilized: '' @ name server,
           server_ids = [srv_id server],
           target_server_type = ''cx31'',
           current_total_cost_eur = 17.49,
           projected_cost_eur = 10.49,
           monthly_savings_eur = 17.49 - 10.49,
           rationale =
             ''This server is barely using its resources '' @ em_dash @
             '' averaging just 2.0% CPU over 30 days (peak '' @
             format_fixed 1 (peak_cpu_30d analysis) @
             ''%). Downgrading from cx41 to cx31 would save EUR 7.00/mo. '' @
             ''Alternatively, its workloads could be consolidated onto '' @
             ''another server to free up this instance entirely.'',
           confidence = high,
           rec_status = pending,
           rec_created_at = now\<rparr>"
proof -
  have pos: "0 < monthly_cost_eur server" by (simp add: assms(4))
  have dg: "map_of DOWNGRADE_MAP (lower (server_type server)) = Some ''cx31''"
    by (simp add: assms(3) lower_def lower_char_def DOWNGRADE_MAP_def)
  have idle: "utilization_tier analysis = ''idle''"
    by (simp add: assms(6) classify_utilization_def)
  have price: "dict_get PRICE_MAP ''cx31'' 0 = 10.49"
    by (simp add: dict_get_def PRICE_MAP_def)
  have seven: "(17.49 :: real) - 10.49 = 7" by simp
  show ?thesis
    unfolding idle_candidate_downgrade [OF assms(1,2) pos dg idle] price assms(3,4,5) seven
      format_fixed_1_2 format_fixed_2_7
    by simp
qed

text \<open>
  Claim C6. Let \<^verbatim>\<open>server_by_id\<close> be keyed by the server keys and let it hold a running
  cloud server of type cx41 that costs 17.49 a month, whose analysis has a 30-day average
  CPU of 2 and the tier of that average (idle). Then the idle rule creates exactly one
  record for this server: it has confidence high, targets cx31, records the costs 17.49 and
  10.49 and the savings 17.49 - 10.49, which is 7.00 to two decimals, and its rationale
  states the 30-day average (2.0) and the 30-day peak CPU.
\<close>

theorem idle_rule_example:
  assumes "distinct (map fst analysis_by_id)"
    and "\<forall>item \<in> set server_by_id. srv_id (snd item) = fst item"
    and "map_of server_by_id sid = Some server"
    and "map_of analysis_by_id sid = Some analysis"
    and "source server = cloud" and "status server = ''running''"
    and "server_type server = ''cx41''" and "monthly_cost_eur server = 17.49"
    and "avg_cpu_30d analysis = 2" and "utilization_tier analysis = classify_utilization 2"
  shows "\<exists>r. filter (\<lambda>r. server_ids r = [sid])
                (find_idle_servers now server_by_id analysis_by_id) = [r] \<and>
     confidence r = high \<and> rec_status r = pending \<and>
     target_server_type r = ''cx31'' \<and>
     current_total_cost_eur r = 17.49 \<and> projected_cost_eur r = 10.49 \<and>
     monthly_savings_eur r = 17.49 - 10.49 \<and> py_round (monthly_savings_eur r) 2 = 7.00 \<and>
     rationale r =
       ''This server is barely using its resources '' @ em_dash @
       '' averaging just 2.0% CPU over 30 days (peak '' @
       format_fixed 1 (peak_cpu_30d analysis) @
       ''%). Downgrading from cx41 to cx31 would save EUR 7.00/mo. '' @
       ''Alternatively, its workloads could be consolidated onto '' @
       ''another server to free up this instance entirely.''"
proof -
  define r where "r = \<lparr>group_name = ''Underutilized: '' @ name server,
           server_ids = [srv_id server],
           target_server_type = ''cx31'',
           current_total_cost_eur = 17.49,
           projected_cost_eur = 10.49,
           monthly_savings_eur = 17.49 - 10.49,
           rationale =
             ''This server is barely using its resources '' @ em_dash @
             '' averaging just 2.0% CPU over 30 days (peak '' @
             format_fixed 1 (peak_cpu_30d analysis) @
             ''%). Downgrading from cx41 to cx31 would save EUR 7.00/mo. '' @
             ''Alternatively, its workloads could be consolidated onto '' @
             ''another server to free up this instance entirely.'',
           confidence = high,
           rec_status = pending,
           rec_created_at = now\<rparr>"
  have keyed: "map_of server_by_id k = Some s \<Longrightarrow> srv_id s = k" for k s
  proof -
    assume "map_of server_by_id k = Some s"
    then have "(k, s) \<in> set server_by_id" by (rule map_of_SomeD)
    with assms(2) show "srv_id s = k" by force
  qed
  from keyed [OF assms(3)] have sid: "srv_id server = sid" .
  have c: "idle_candidate now server_by_id (sid, analysis) = Some r"
    unfolding r_def by (rule idle_candidate_cx41 [OF assms(3,6,7,8,9,10)])
  have p: "server_ids r = [sid]" by (simp add: r_def sid)
  have other: "\<not> server_ids r' = [sid]"
    if "k' \<noteq> sid" and "idle_candidate now server_by_id (k', a') = Some r'" for k' a' r'
  proof -
    from idle_candidate_server_ids [OF that(2)] obtain s where
      "map_of server_by_id k' = Some s" and "server_ids r' = [srv_id s]" by blast
    with keyed [of k' s] that(1) show ?thesis by simp
  qed
  from assms(4) have "(sid, analysis) \<in> set analysis_by_id" by (rule map_of_SomeD)
  from collect_filter_unique [of analysis_by_id sid analysis "idle_candidate now server_by_id" r
      "\<lambda>r. server_ids r = [sid]", OF assms(1) this c p other]
  have f: "filter (\<lambda>r. server_ids r = [sid])
             (find_idle_servers now server_by_id analysis_by_id) = [r]"
    by (simp add: find_idle_servers_def)
  have rr: "py_round (monthly_savings_eur r) 2 = 7.00"
    by (simp add: r_def py_round_def round_half_even_def)
  show ?thesis
    by (rule exI [of _ r]) (simp add: f rr, simp add: r_def)
qed

theorem idle_rule_example_witness:
  "map_of [(1, example_server)] 1 = Some example_server \<and>
   map_of [(1, example_analysis)] 1 = Some example_analysis \<and>
   source example_server = cloud \<and> status example_server = ''running'' \<and>
   server_type example_server = ''cx41'' \<and> monthly_cost_eur example_server = 17.49 \<and>
   avg_cpu_30d example_analysis = 2 \<and> utilization_tier example_analysis = ''idle'' \<and>
   (\<exists>r. find_idle_servers 100 [(1, example_server)] [(1, example_analysis)] = [r] \<and>
     confidence r = high \<and> target_server_type r = ''cx31'' \<and> monthly_savings_eur r = 7 \<and>
     rationale r =
       ''This server is barely using its resources '' @ em_dash @
       '' averaging just 2.0% CPU over 30 days (peak 9.5%). '' @
       ''Downgrading from cx41 to cx31 would save EUR 7.00/mo. '' @
       ''Alternatively, its workloads could be consolidated onto '' @
       ''another server to free up this instance entirely.'')"
proof -
  have h: "distinct (map fst [(1 :: int, example_analysis)])"
    "\<forall>item \<in> set [(1, example_server)]. srv_id (snd item) = fst item"
    "map_of [(1, example_server)] 1 = Some example_server"
    "map_of [(1, example_analysis)] 1 = Some example_analysis"
    "source example_server = cloud" "status example_server = ''running''"
    "server_type example_server = ''cx41''" "monthly_cost_eur example_server = 17.49"
    "avg_cpu_30d example_analysis = 2"
    "utilization_tier example_analysis = classify_utilization 2"
    by (simp_all add: example_server_def example_analysis_def)
  have t: "utilization_tier example_analysis = ''idle''"
    by (simp add: example_analysis_def classify_utilization_def)
  have pk: "format_fixed 1 (peak_cpu_30d example_analysis) = ''9.5''"
    by (simp add: example_analysis_def format_fixed_def round_half_even_def Let_def
        str_nat.simps digit_char_def zfill_def)
  have one: "length (find_idle_servers 100 [(1, example_server)] [(1, example_analysis)]) \<le> 1"
    by (simp add: find_idle_servers_def split: option.splits)
  from idle_rule_example [OF h, of 100] obtain r where
    f: "filter (\<lambda>r. server_ids r = [1])
          (find_idle_servers 100 [(1, example_server)] [(1, example_analysis)]) = [r]"
    and r: "confidence r = high" "target_server_type r = ''cx31''"
      "monthly_savings_eur r = 17.49 - 10.49"
      "rationale r =
       ''This server is barely using its resources '' @ em_dash @
       '' averaging just 2.0% CPU over 30 days (peak '' @
       format_fixed 1 (peak_cpu_30d example_analysis) @
       ''%). Downgrading from cx41 to cx31 would save EUR 7.00/mo. '' @
       ''Alternatively, its workloads could be consolidated onto '' @
       ''another server to free up this instance entirely.''"
    by (elim exE conjE)
  have all: "find_idle_servers 100 [(1, example_server)] [(1, example_analysis)] = [r]"
  proof (cases "find_idle_servers 100 [(1, example_server)] [(1, example_analysis)]")
    case Nil
    with f show ?thesis by simp
  next
    case (Cons a as)
    with one have "as = []" by simp
    with Cons f show ?thesis by (simp split: if_splits)
  qed
  from r(3) have s: "monthly_savings_eur r = 7" by simp
  have ra: "rationale r =
       ''This server is barely using its resources '' @ em_dash @
       '' averaging just 2.0% CPU over 30 days (peak 9.5%). '' @
       ''Downgrading from cx41 to cx31 would save EUR 7.00/mo. '' @
       ''Alternatively, its workloads could be consolidated onto '' @
       ''another server to free up this instance entirely.''"
    unfolding r(4) pk by simp
  from all r(1,2) s ra have "\<exists>r. find_idle_servers 100 [(1, example_server)] [(1, example_analysis)] = [r] \<and>
     confidence r = high \<and> target_server_type r = ''cx31'' \<and> monthly_savings_eur r = 7 \<and>
     rationale r =
       ''This server is barely using its resources '' @ em_dash @
       '' averaging just 2.0% CPU over 30 days (peak 9.5%). '' @
       ''Downgrading from cx41 to cx31 would save EUR 7.00/mo. '' @
       ''Alternatively, its workloads could be consolidated onto '' @
       ''another server to free up this instance entirely.''"
    by (intro exI [of _ r] conjI)
  with h(3-9) t show ?thesis by (intro conjI)
qed

section \<open>The amounts stored in a recommendation\<close>

lemma round_half_even_err: "\<bar>of_int (round_half_even x) - x\<bar> \<le> 1 / 2"
proof -
  have "of_int \<lfloor>x\<rfloor> \<le> x" "x < of_int \<lfloor>x\<rfloor> + 1" by linarith+
  then show ?thesis by (auto simp: round_half_even_def Let_def)
qed

text \<open>
  Rounding two amounts and their difference to cents, one by one: each result is a whole
  number of cents, and the rounded difference is at most one cent away from the difference
  of the rounded amounts.
\<close>

lemma py_round_cents:
  assumes "p < c"
  shows "\<exists>a b s :: int.
     py_round c 2 = of_int a / 100 \<and> py_round p 2 = of_int b / 100 \<and>
     py_round (c - p) 2 = of_int s / 100 \<and> 0 \<le> s \<and> \<bar>s - (a - b)\<bar> \<le> 1"
proof -
  define a where "a = round_half_even (c * 100)"
  define b where "b = round_half_even (p * 100)"
  define s where "s = round_half_even ((c - p) * 100)"
  have "\<bar>of_int a - c * 100\<bar> \<le> 1 / 2" "\<bar>of_int b - p * 100\<bar> \<le> 1 / 2"
    "\<bar>of_int s - (c - p) * 100\<bar> \<le> 1 / 2"
    unfolding a_def b_def s_def by (rule round_half_even_err)+
  moreover have "(c - p) * 100 = c * 100 - p * 100" by (simp add: algebra_simps)
  ultimately have "\<bar>(of_int s - (of_int a - of_int b) :: real)\<bar> \<le> 3 / 2" by linarith
  then have "\<bar>(of_int (s - (a - b)) :: real)\<bar> \<le> 3 / 2" by simp
  then have "\<bar>(of_int (s - (a - b)) :: real)\<bar> < 2" by linarith
  then have "\<bar>s - (a - b)\<bar> < 2" by linarith
  then have d: "\<bar>s - (a - b)\<bar> \<le> 1" by linarith
  from assms have "of_int 0 \<le> (c - p) * 100" by simp
  then have n: "0 \<le> s" unfolding s_def by (rule round_half_even_ge)
  have "py_round c 2 = of_int a / 100" "py_round p 2 = of_int b / 100"
    "py_round (c - p) 2 = of_int s / 100"
    by (simp_all add: py_round_def a_def b_def s_def)
  with n d show ?thesis by (intro exI [of _ a] exI [of _ b] exI [of _ s] conjI)
qed

text \<open>
  The three amounts of a record of the right-sizing rule and of the staging rule are an
  unrounded current cost \<open>c\<close>, an unrounded projected cost \<open>p\<close> below it, and their
  difference, each rounded to two decimals.
\<close>

lemma rightsizing_candidate_rounded:
  assumes "rightsizing_candidate now server_by_id item = Some r"
  shows "\<exists>c p. p < c \<and> current_total_cost_eur r = py_round c 2 \<and>
           projected_cost_eur r = py_round p 2 \<and> monthly_savings_eur r = py_round (c - p) 2"
proof -
  from assms obtain server smaller_type where
    s: "map_of server_by_id (fst item) = Some server" and
    t: "map_of DOWNGRADE_MAP (lower (server_type server)) = Some smaller_type"
    by (auto simp: rightsizing_candidate_def Let_def split: if_splits option.splits)
  define c where "c = (if monthly_cost_eur server \<le> 0
                       then dict_get PRICE_MAP (lower (server_type server)) 0
                       else monthly_cost_eur server)"
  define p where "p = dict_get PRICE_MAP smaller_type c"
  from assms s t have "p < c \<and> current_total_cost_eur r = py_round c 2 \<and>
           projected_cost_eur r = py_round p 2 \<and> monthly_savings_eur r = py_round (c - p) 2"
    unfolding c_def p_def
    by (auto simp: rightsizing_candidate_def Let_def split: if_splits)
  then show ?thesis by blast
qed

lemma find_staging_consolidation_rounded:
  assumes "r \<in> set (find_staging_consolidation now server_by_id analysis_by_id)"
  shows "\<exists>c p. p < c \<and> current_total_cost_eur r = py_round c 2 \<and>
           projected_cost_eur r = py_round p 2 \<and> monthly_savings_eur r = py_round (c - p) 2"
proof -
  define c where
    "c = sum_list (map monthly_cost_eur (filter is_staging_server (map snd server_by_id)))"
  define p where "p = dict_get PRICE_MAP (target_server_type r) (c * 0.5)"
  from assms have "p < c \<and> current_total_cost_eur r = py_round c 2 \<and>
           projected_cost_eur r = py_round p 2 \<and> monthly_savings_eur r = py_round (c - p) 2"
    unfolding c_def p_def
    by (auto simp: find_staging_consolidation_def Let_def max_def split: if_splits)
  then show ?thesis by blast
qed

lemma example_rightsize_amounts:
  "map current_total_cost_eur (fst (generate_recommendations 1700000000000000 example_rightsize_db)) =
     [10.88]"
  "map projected_cost_eur (fst (generate_recommendations 1700000000000000 example_rightsize_db)) =
     [10.49]"
  "map monthly_savings_eur (fst (generate_recommendations 1700000000000000 example_rightsize_db)) =
     [0.38]"
  by (simp_all add: rule_eval example_rightsize_db_def example_server_def example_snapshot_def
      timedelta_days_def classify_utilization_def py_round_def round_half_even_def)

lemma example_cheap_amounts:
  "map current_total_cost_eur (fst (generate_recommendations 100 example_cheap_db)) = [9.99]"
  "map projected_cost_eur (fst (generate_recommendations 100 example_cheap_db)) = [10.49]"
  "map monthly_savings_eur (fst (generate_recommendations 100 example_cheap_db)) = [- 0.5]"
  by (simp_all add: rule_eval example_cheap_db_def example_server_def)

text \<open>
  Claim C1, as stated, fails. A running cx41 server that costs 10.875 a month and peaks at
  10 percent CPU gets a right-sizing record with current cost 10.88, projected cost 10.49 and
  savings 0.38, which is not 10.88 - 10.49: the three amounts are rounded one by one. A
  running idle cx41 server that costs 9.99 a month gets an idle record with projected cost
  10.49 and savings -0.50, which is negative: the idle rule has no check of the savings.
\<close>

theorem recommendation_amounts_counterexample:
  "map current_total_cost_eur
     (fst (generate_recommendations 1700000000000000 example_rightsize_db)) = [10.88] \<and>
   map projected_cost_eur
     (fst (generate_recommendations 1700000000000000 example_rightsize_db)) = [10.49] \<and>
   map monthly_savings_eur
     (fst (generate_recommendations 1700000000000000 example_rightsize_db)) = [0.38] \<and>
   (0.38 :: real) \<noteq> 10.88 - 10.49 \<and>
   map current_total_cost_eur (fst (generate_recommendations 100 example_cheap_db)) = [9.99] \<and>
   map projected_cost_eur (fst (generate_recommendations 100 example_cheap_db)) = [10.49] \<and>
   map monthly_savings_eur (fst (generate_recommendations 100 example_cheap_db)) = [- 0.5] \<and>
   (- 0.5 :: real) < 0"
  using example_rightsize_amounts example_cheap_amounts by simp

text \<open>
  Claim C1, amended. The records that a generation cycle creates are those of the three
  rules, in their order. A record of the idle rule stores as savings exactly its current
  cost minus its projected cost. A record of the staging rule or of the right-sizing rule
  stores three amounts that are each rounded to two decimals: its current cost is an
  unrounded cost \<open>c\<close> rounded, its projected cost is an unrounded cost \<open>p\<close> below \<open>c\<close>
  rounded, and its savings are \<open>c - p\<close> rounded. So each of the three is a whole number of
  cents, the savings are not negative, and, counted in cents, the savings are at most one
  cent away from the current cost minus the projected cost.
\<close>

theorem recommendation_amounts:
  fixes now :: datetime and d :: db
  defines "analysis_by_id \<equiv> dict_of (map (\<lambda>a. (server_id a, a)) (analyze_all_servers now d))"
  defines "server_by_id \<equiv> dict_of (map (\<lambda>s. (srv_id s, s)) (servers d))"
  shows "fst (generate_recommendations now d) =
       find_idle_servers now server_by_id analysis_by_id @
       find_staging_consolidation now server_by_id analysis_by_id @
       find_rightsizing_candidates now server_by_id analysis_by_id \<and>
     (\<forall>r \<in> set (find_idle_servers now server_by_id analysis_by_id).
        monthly_savings_eur r = current_total_cost_eur r - projected_cost_eur r) \<and>
     (\<forall>r \<in> set (find_staging_consolidation now server_by_id analysis_by_id) \<union>
             set (find_rightsizing_candidates now server_by_id analysis_by_id).
        (\<exists>c p. p < c \<and>
           current_total_cost_eur r = py_round c 2 \<and>
           projected_cost_eur r = py_round p 2 \<and>
           monthly_savings_eur r = py_round (c - p) 2) \<and>
        (\<exists>a b s :: int.
           current_total_cost_eur r = of_int a / 100 \<and>
           projected_cost_eur r = of_int b / 100 \<and>
           monthly_savings_eur r = of_int s / 100 \<and>
           0 \<le> s \<and> \<bar>s - (a - b)\<bar> \<le> 1) \<and>
        0 \<le> monthly_savings_eur r)"
proof -
  have 1: "fst (generate_recommendations now d) =
       find_idle_servers now server_by_id analysis_by_id @
       find_staging_consolidation now server_by_id analysis_by_id @
       find_rightsizing_candidates now server_by_id analysis_by_id"
    by (simp add: generate_recommendations_def Let_def analysis_by_id_def server_by_id_def)
  have 2: "\<forall>r \<in> set (find_idle_servers now server_by_id analysis_by_id).
        monthly_savings_eur r = current_total_cost_eur r - projected_cost_eur r"
    using idle_candidate_fields(4) by (auto simp: find_idle_servers_def dest!: collect_set)
  have 3: "\<forall>r \<in> set (find_staging_consolidation now server_by_id analysis_by_id) \<union>
             set (find_rightsizing_candidates now server_by_id analysis_by_id).
        (\<exists>c p. p < c \<and>
           current_total_cost_eur r = py_round c 2 \<and>
           projected_cost_eur r = py_round p 2 \<and>
           monthly_savings_eur r = py_round (c - p) 2) \<and>
        (\<exists>a b s :: int.
           current_total_cost_eur r = of_int a / 100 \<and>
           projected_cost_eur r = of_int b / 100 \<and>
           monthly_savings_eur r = of_int s / 100 \<and>
           0 \<le> s \<and> \<bar>s - (a - b)\<bar> \<le> 1) \<and>
        0 \<le> monthly_savings_eur r"
  proof
    fix r
    assume "r \<in> set (find_staging_consolidation now server_by_id analysis_by_id) \<union>
             set (find_rightsizing_candidates now server_by_id analysis_by_id)"
    then consider (s) "r \<in> set (find_staging_consolidation now server_by_id analysis_by_id)"
      | (z) "\<exists>item. rightsizing_candidate now server_by_id item = Some r"
      by (auto simp: find_rightsizing_candidates_def dest!: collect_set)
    then have "\<exists>c p. p < c \<and> current_total_cost_eur r = py_round c 2 \<and>
           projected_cost_eur r = py_round p 2 \<and> monthly_savings_eur r = py_round (c - p) 2"
    proof cases
      case s
      then show ?thesis by (rule find_staging_consolidation_rounded)
    next
      case z
      then obtain item where "rightsizing_candidate now server_by_id item = Some r" by blast
      then show ?thesis by (rule rightsizing_candidate_rounded)
    qed
    then obtain c p where cp: "p < c" "current_total_cost_eur r = py_round c 2"
      "projected_cost_eur r = py_round p 2" "monthly_savings_eur r = py_round (c - p) 2"
      by (elim exE conjE)
    from cp have A: "\<exists>c p. p < c \<and> current_total_cost_eur r = py_round c 2 \<and>
           projected_cost_eur r = py_round p 2 \<and> monthly_savings_eur r = py_round (c - p) 2"
      by (intro exI [of _ c] exI [of _ p] conjI)
    from py_round_cents [OF cp(1)] have B: "\<exists>a b s :: int.
           current_total_cost_eur r = of_int a / 100 \<and>
           projected_cost_eur r = of_int b / 100 \<and>
           monthly_savings_eur r = of_int s / 100 \<and>
           0 \<le> s \<and> \<bar>s - (a - b)\<bar> \<le> 1"
      unfolding cp(2-4) .
    from cp(1) have "0 \<le> c - p" by simp
    then have C: "0 \<le> monthly_savings_eur r" unfolding cp(4) by (rule py_round_nonneg)
    from A B C show "(\<exists>c p. p < c \<and>
           current_total_cost_eur r = py_round c 2 \<and>
           projected_cost_eur r = py_round p 2 \<and>
           monthly_savings_eur r = py_round (c - p) 2) \<and>
        (\<exists>a b s :: int.
           current_total_cost_eur r = of_int a / 100 \<and>
           projected_cost_eur r = of_int b / 100 \<and>
           monthly_savings_eur r = of_int s / 100 \<and>
           0 \<le> s \<and> \<bar>s - (a - b)\<bar> \<le> 1) \<and>
        0 \<le> monthly_savings_eur r" by (intro conjI)
  qed
  from 1 2 3 show ?thesis by (intro conjI)
qed

theorem recommendation_amounts_witness:
  "(\<exists>r. fst (generate_recommendations 100 example_idle_db) = [r] \<and>
        find_idle_servers 100 (dict_of (map (\<lambda>s. (srv_id s, s)) (servers example_idle_db)))
          (dict_of (map (\<lambda>a. (server_id a, a)) (analyze_all_servers 100 example_idle_db))) = [r] \<and>
        current_total_cost_eur r = 17.49 \<and> projected_cost_eur r = 10.49 \<and>
        monthly_savings_eur r = current_total_cost_eur r - projected_cost_eur r) \<and>
   (\<exists>r. fst (generate_recommendations 1700000000000000 example_rightsize_db) = [r] \<and>
        find_rightsizing_candidates 1700000000000000
          (dict_of (map (\<lambda>s. (srv_id s, s)) (servers example_rightsize_db)))
          (dict_of (map (\<lambda>a. (server_id a, a))
             (analyze_all_servers 1700000000000000 example_rightsize_db))) = [r] \<and>
        current_total_cost_eur r = 10.88 \<and> projected_cost_eur r = 10.49 \<and>
        monthly_savings_eur r = 0.38 \<and>
        (\<exists>c p. p < c \<and>
           current_total_cost_eur r = py_round c 2 \<and>
           projected_cost_eur r = py_round p 2 \<and>
           monthly_savings_eur r = py_round (c - p) 2) \<and>
        (\<exists>a b s :: int.
           current_total_cost_eur r = of_int a / 100 \<and>
           projected_cost_eur r = of_int b / 100 \<and>
           monthly_savings_eur r = of_int s / 100 \<and>
           0 \<le> s \<and> \<bar>s - (a - b)\<bar> \<le> 1) \<and>
        0 \<le> monthly_savings_eur r) \<and>
   py_round 10.875 2 = 10.88 \<and> py_round 10.49 2 = 10.49 \<and> py_round (10.875 - 10.49) 2 = 0.38"
proof -
  note A = recommendation_amounts [of 100 example_idle_db]
  note B = recommendation_amounts [of 1700000000000000 example_rightsize_db]
  obtain r where r: "find_idle_servers 100 (dict_of (map (\<lambda>s. (srv_id s, s)) (servers example_idle_db)))
          (dict_of (map (\<lambda>a. (server_id a, a)) (analyze_all_servers 100 example_idle_db))) = [r]"
    "current_total_cost_eur r = 17.49" "projected_cost_eur r = 10.49"
    "fst (generate_recommendations 100 example_idle_db) = [r]"
    by (simp add: rule_eval example_idle_db_def example_server_def)
  from A r(1) have ra: "monthly_savings_eur r = current_total_cost_eur r - projected_cost_eur r"
    by simp
  obtain q where q: "find_rightsizing_candidates 1700000000000000
          (dict_of (map (\<lambda>s. (srv_id s, s)) (servers example_rightsize_db)))
          (dict_of (map (\<lambda>a. (server_id a, a))
             (analyze_all_servers 1700000000000000 example_rightsize_db))) = [q]"
    "current_total_cost_eur q = 10.88" "projected_cost_eur q = 10.49"
    "monthly_savings_eur q = 0.38"
    "fst (generate_recommendations 1700000000000000 example_rightsize_db) = [q]"
    by (simp add: rule_eval example_rightsize_db_def example_server_def example_snapshot_def
      timedelta_days_def classify_utilization_def py_round_def round_half_even_def)
  from B have "\<forall>r \<in> set (find_staging_consolidation 1700000000000000
          (dict_of (map (\<lambda>s. (srv_id s, s)) (servers example_rightsize_db)))
          (dict_of (map (\<lambda>a. (server_id a, a))
             (analyze_all_servers 1700000000000000 example_rightsize_db)))) \<union>
       set (find_rightsizing_candidates 1700000000000000
          (dict_of (map (\<lambda>s. (srv_id s, s)) (servers example_rightsize_db)))
          (dict_of (map (\<lambda>a. (server_id a, a))
             (analyze_all_servers 1700000000000000 example_rightsize_db)))).
        (\<exists>c p. p < c \<and>
           current_total_cost_eur r = py_round c 2 \<and>
           projected_cost_eur r = py_round p 2 \<and>
           monthly_savings_eur r = py_round (c - p) 2) \<and>
        (\<exists>a b s :: int.
           current_total_cost_eur r = of_int a / 100 \<and>
           projected_cost_eur r = of_int b / 100 \<and>
           monthly_savings_eur r = of_int s / 100 \<and>
           0 \<le> s \<and> \<bar>s - (a - b)\<bar> \<le> 1) \<and>
        0 \<le> monthly_savings_eur r"
    by (elim conjE)
  then have qa: "(\<exists>c p. p < c \<and>
           current_total_cost_eur q = py_round c 2 \<and>
           projected_cost_eur q = py_round p 2 \<and>
           monthly_savings_eur q = py_round (c - p) 2) \<and>
        (\<exists>a b s :: int.
           current_total_cost_eur q = of_int a / 100 \<and>
           projected_cost_eur q = of_int b / 100 \<and>
           monthly_savings_eur q = of_int s / 100 \<and>
           0 \<le> s \<and> \<bar>s - (a - b)\<bar> \<le> 1) \<and>
        0 \<le> monthly_savings_eur q"
    unfolding q(1) by simp
  from r ra have 1: "\<exists>r. fst (generate_recommendations 100 example_idle_db) = [r] \<and>
        find_idle_servers 100 (dict_of (map (\<lambda>s. (srv_id s, s)) (servers example_idle_db)))
          (dict_of (map (\<lambda>a. (server_id a, a)) (analyze_all_servers 100 example_idle_db))) = [r] \<and>
        current_total_cost_eur r = 17.49 \<and> projected_cost_eur r = 10.49 \<and>
        monthly_savings_eur r = current_total_cost_eur r - projected_cost_eur r"
    by (intro exI [of _ r] conjI)
  note qa1 = qa [THEN conjunct1] and qa2 = qa [THEN conjunct2, THEN conjunct1]
    and qa3 = qa [THEN conjunct2, THEN conjunct2]
  from q(5) q(1) q(2) q(3) q(4) qa1 qa2 qa3
  have 2: "\<exists>r. fst (generate_recommendations 1700000000000000 example_rightsize_db) = [r] \<and>
        find_rightsizing_candidates 1700000000000000
          (dict_of (map (\<lambda>s. (srv_id s, s)) (servers example_rightsize_db)))
          (dict_of (map (\<lambda>a. (server_id a, a))
             (analyze_all_servers 1700000000000000 example_rightsize_db))) = [r] \<and>
        current_total_cost_eur r = 10.88 \<and> projected_cost_eur r = 10.49 \<and>
        monthly_savings_eur r = 0.38 \<and>
        (\<exists>c p. p < c \<and>
           current_total_cost_eur r = py_round c 2 \<and>
           projected_cost_eur r = py_round p 2 \<and>
           monthly_savings_eur r = py_round (c - p) 2) \<and>
        (\<exists>a b s :: int.
           current_total_cost_eur r = of_int a / 100 \<and>
           projected_cost_eur r = of_int b / 100 \<and>
           monthly_savings_eur r = of_int s / 100 \<and>
           0 \<le> s \<and> \<bar>s - (a - b)\<bar> \<le> 1) \<and>
        0 \<le> monthly_savings_eur r"
    by (intro exI [of _ q] conjI)
  have 3: "py_round 10.875 2 = 10.88" "py_round 10.49 2 = 10.49"
    "py_round (10.875 - 10.49) 2 = 0.38"
    by (simp_all add: py_round_def round_half_even_def)
  from 1 2 3 show ?thesis by (intro conjI)
qed

section \<open>The staging rule\<close>







text \<open>
  \<open>float_of\<close> rounds to a multiple of the spacing at its argument, and moves the argument
  by at most half the spacing.
\<close>

lemma two_power_pos: "0 < two_power k"
  by (simp add: two_power_def)

lemma float_of_error:
  fixes x :: real
  defines "ulp \<equiv> two_power (max (float_exponent x) (- 1022) - 52)"
  shows "\<bar>float_of x - x\<bar> \<le> ulp / 2" and "\<exists>m :: int. float_of x = of_int m * ulp"
proof -
  have p: "0 < ulp" unfolding ulp_def by (rule two_power_pos)
  have f: "float_of x = of_int (round_half_even (x / ulp)) * ulp"
    by (simp add: float_of_def Let_def ulp_def)
  from round_half_even_err [of "x / ulp"]
  have "\<bar>of_int (round_half_even (x / ulp)) - x / ulp\<bar> * ulp \<le> 1 / 2 * ulp"
    using p by (simp only: mult_le_cancel_right_pos)
  moreover have "\<bar>of_int (round_half_even (x / ulp)) - x / ulp\<bar> * ulp =
      \<bar>of_int (round_half_even (x / ulp)) * ulp - x\<bar>"
  proof -
    have "\<bar>of_int (round_half_even (x / ulp)) - x / ulp\<bar> * ulp =
        \<bar>(of_int (round_half_even (x / ulp)) - x / ulp) * ulp\<bar>"
      using p by (simp add: abs_mult)
    also from p have "(of_int (round_half_even (x / ulp)) - x / ulp) * ulp =
        of_int (round_half_even (x / ulp)) * ulp - x"
      by (simp add: left_diff_distrib)
    finally show ?thesis .
  qed
  ultimately show "\<bar>float_of x - x\<bar> \<le> ulp / 2" by (simp add: f)
  from f show "\<exists>m :: int. float_of x = of_int m * ulp" by blast
qed

text \<open>
  Evaluation of the double precision operations at given numbers. The float \<^verbatim>\<open>0.7\<close> lies
  below 7/10, and the bound that the code computes for a combined peak of 105 on 2 cores is
  the double next above 3, although (105 / 100 * 2) / 0.7 is 3.
\<close>

lemmas float_eval =
  float_div_def float_mul_def float_of_def float_exponent_def exp_up.simps exp_down.simps
  two_power_def round_half_even_def Let_def

lemma float_of_7_10: "float_of 0.7 = 3152519739159347 / 4503599627370496"
  by (simp add: float_eval)
















end
